theory Spec2Isabelle
  imports Main
begin

section \<open>JSON documents and errors\<close>

text \<open>
  Bodies on the wire are modelled by the JSON document they carry. \<open>JInt\<close> is a number
  literal without fraction or exponent, \<open>JFloat\<close> one with either (its text is kept).
  An object is the list of its members in the order they are written, so that repeated
  keys and keys differing only in case are processed as \<open>encoding/json\<close> does.
\<close>

datatype json =
    JNull
  | JBool bool
  | JInt int
  | JFloat string
  | JStr string
  | JArr "json list"
  | JObj "(string \<times> json) list"

text \<open>
  Go \<open>error\<close> values. \<open>SyntaxError\<close> covers a body that cannot be read as one JSON
  value, \<open>UnmarshalTypeError\<close> a JSON value of the wrong kind for the Go type,
  \<open>TimeError\<close> a failure of \<open>time.Time.UnmarshalJSON\<close>, \<open>TransportError\<close> any error of
  the HTTP client, \<open>ApiError\<close> the value built by \<open>apiError\<close>.
\<close>

datatype error =
    SyntaxError string
  | UnmarshalTypeError string string
  | TimeError string
  | TransportError string
  | ApiError string string

section \<open>Data model of order.go\<close>

type_synonym orderType = string
type_synonym orderDirection = string

definition Limit :: orderType where
  "Limit = ''limit''"

definition Market :: orderType where
  "Market = ''market''"

definition FillOrKill :: orderType where
  "FillOrKill = ''fill-or-kill''"

definition ImmediateOrCancel :: orderType where
  "ImmediateOrCancel = ''immediate-or-cancel''"

definition Buy :: orderDirection where
  "Buy = ''buy''"

definition Sell :: orderDirection where
  "Sell = ''sell''"

text \<open>
  \<open>orderRequest\<close> is built positionally in \<open>NewOrder\<close>
  (account, venue, symbol, price, qty, direction, orderType).
\<close>

datatype orderRequest =
  orderRequest string string string int int orderDirection orderType

text \<open>
  \<open>time.Time\<close>: the zero time, or the instant written by an RFC 3339 text. Go \<open>int\<close> is
  taken to be 64 bits wide; values are kept as integers and the range is checked where
  the decoder checks it. A slice is \<open>None\<close> when nil and \<open>Some xs\<close> otherwise.
\<close>

datatype Time = ZeroTime | Instant string

record Fill =
  Price :: int
  Quantity :: int
  TS :: Time

record Order =
  Account :: string
  Venue :: string
  Symbol :: string
  Price :: int
  OriginalQuantity :: int
  Quantity :: int
  Direction :: orderDirection
  OrderType :: orderType
  ID :: int
  TS :: Time
  Fills :: "Fill list option"
  TotalFilled :: int
  Open :: bool

record allOrdersStatusResult =
  Ok :: bool
  Venue :: string
  Orders :: "Order list option"

definition zeroFill :: Fill where
  "zeroFill = \<lparr>Fill.Price = 0, Fill.Quantity = 0, Fill.TS = ZeroTime\<rparr>"

definition zeroOrder :: Order where
  "zeroOrder = \<lparr>Account = [], Order.Venue = [], Symbol = [], Order.Price = 0,
     OriginalQuantity = 0, Order.Quantity = 0, Direction = [], OrderType = [], ID = 0,
     Order.TS = ZeroTime, Fills = None, TotalFilled = 0, Open = False\<rparr>"

definition zeroAllOrdersStatusResult :: allOrdersStatusResult where
  "zeroAllOrdersStatusResult = \<lparr>Ok = False, allOrdersStatusResult.Venue = [], Orders = None\<rparr>"

text \<open>
  The JSON tags of the three structs, in field order. The tag of \<open>OriginalQuantity\<close> is
  spelled as in the source.
\<close>

definition fillTags :: "string list" where
  "fillTags = [''price'', ''qty'', ''ts'']"

definition orderTags :: "string list" where
  "orderTags = [''account'', ''venue'', ''symbol'', ''price'', ''orignialQty'', ''qty'',
     ''direction'', ''orderType'', ''id'', ''ts'', ''fills'', ''totalFilled'', ''open'']"

definition allOrdersTags :: "string list" where
  "allOrdersTags = [''ok'', ''venue'', ''orders'']"

text \<open>
  Parts of the package and of the Go library that order.go uses but does not define:
  the constant \<open>baseURL\<close>, whether \<open>http.NewRequest\<close> accepts a URL, whether
  \<open>time.Time.UnmarshalJSON\<close> accepts the text of a JSON string, and the decoding of a
  JSON value into the package's \<open>errorResult\<close> (its message and the decoder's error).
\<close>

record errorResult =
  Error :: string

record env =
  baseURL :: string
  urlParses :: "string \<Rightarrow> bool"
  validTime :: "string \<Rightarrow> bool"
  unmarshalErrorResult :: "json \<Rightarrow> errorResult \<times> error option"

section \<open>encoding/json: Marshal\<close>

definition Marshal :: "orderRequest \<Rightarrow> json \<times> error option" where
  "Marshal r = (case r of orderRequest a v s p q d t \<Rightarrow>
     (JObj [(''account'', JStr a), (''venue'', JStr v), (''symbol'', JStr s),
            (''price'', JInt p), (''qty'', JInt q), (''direction'', JStr d),
            (''orderType'', JStr t)], None))"

section \<open>encoding/json: decoding into the structs\<close>

text \<open>
  Object keys are matched against the tags by an exact match first and by a
  case-insensitive match otherwise. The folding used for the second upper-cases ASCII
  letters and maps the two non-ASCII runes that fold onto ASCII letters
  (U+017F onto S, U+212A onto K), read here in their UTF-8 encoding. Every other byte
  outside ASCII is kept; it cannot make a key equal to a tag, since the tags are ASCII.
\<close>

definition upperASCII :: "char \<Rightarrow> char" where
  "upperASCII c = (let n = (of_char c :: nat) in
     if 97 \<le> n \<and> n \<le> 122 then char_of (n - 32) else c)"

fun foldName :: "string \<Rightarrow> string" where
  "foldName (a # b # c # cs) =
     (if a = CHR 0xE2 \<and> b = CHR 0x84 \<and> c = CHR 0xAA then CHR ''K'' # foldName cs
      else if a = CHR 0xC5 \<and> b = CHR 0xBF then CHR ''S'' # foldName (c # cs)
      else upperASCII a # foldName (b # c # cs))"
| "foldName [a, b] =
     (if a = CHR 0xC5 \<and> b = CHR 0xBF then [CHR ''S'']
      else upperASCII a # foldName [b])"
| "foldName [a] = [upperASCII a]"
| "foldName [] = []"

definition findField :: "string list \<Rightarrow> string \<Rightarrow> string option" where
  "findField tags key = (case find (\<lambda>t. t = key) tags of
       Some t \<Rightarrow> Some t
     | None \<Rightarrow> find (\<lambda>t. foldName t = foldName key) tags)"

text \<open>
  The decoder keeps the first \<open>UnmarshalTypeError\<close> and goes on (\<open>saveError\<close>); an error
  returned by an \<open>Unmarshaler\<close> (here \<open>time.Time\<close>) stops the decoding at once. Every
  store function takes the JSON value, the current Go value and the saved error, and
  returns the new value and saved error together with the stopping error, if any.
\<close>

type_synonym saved = "error option"

definition saveError :: "error \<Rightarrow> saved \<Rightarrow> saved" where
  "saveError e s = (case s of None \<Rightarrow> Some e | Some x \<Rightarrow> Some x)"

definition kindOf :: "json \<Rightarrow> string" where
  "kindOf j = (case j of JNull \<Rightarrow> ''null'' | JBool _ \<Rightarrow> ''bool'' | JInt _ \<Rightarrow> ''number''
     | JFloat _ \<Rightarrow> ''number'' | JStr _ \<Rightarrow> ''string'' | JArr _ \<Rightarrow> ''array''
     | JObj _ \<Rightarrow> ''object'')"

definition storeString :: "json \<Rightarrow> string \<times> saved \<Rightarrow> (string \<times> saved) \<times> error option" where
  "storeString j vs = (case vs of (cur, s) \<Rightarrow>
     (case j of
        JStr x \<Rightarrow> ((x, s), None)
      | JNull \<Rightarrow> ((cur, s), None)
      | _ \<Rightarrow> ((cur, saveError (UnmarshalTypeError (kindOf j) ''string'') s), None)))"

definition storeInt :: "json \<Rightarrow> int \<times> saved \<Rightarrow> (int \<times> saved) \<times> error option" where
  "storeInt j vs = (case vs of (cur, s) \<Rightarrow>
     (case j of
        JInt n \<Rightarrow>
          (if - (2 ^ 63) \<le> n \<and> n < 2 ^ 63 then ((n, s), None)
           else ((cur, saveError (UnmarshalTypeError ''number'' ''int'') s), None))
      | JNull \<Rightarrow> ((cur, s), None)
      | _ \<Rightarrow> ((cur, saveError (UnmarshalTypeError (kindOf j) ''int'') s), None)))"

definition storeBool :: "json \<Rightarrow> bool \<times> saved \<Rightarrow> (bool \<times> saved) \<times> error option" where
  "storeBool j vs = (case vs of (cur, s) \<Rightarrow>
     (case j of
        JBool b \<Rightarrow> ((b, s), None)
      | JNull \<Rightarrow> ((cur, s), None)
      | _ \<Rightarrow> ((cur, saveError (UnmarshalTypeError (kindOf j) ''bool'') s), None)))"

definition storeTime :: "env \<Rightarrow> json \<Rightarrow> Time \<times> saved \<Rightarrow> (Time \<times> saved) \<times> error option" where
  "storeTime w j vs = (case vs of (cur, s) \<Rightarrow>
     (case j of
        JNull \<Rightarrow> ((cur, s), None)
      | JStr x \<Rightarrow>
          (if validTime w x then ((Instant x, s), None)
           else ((ZeroTime, s), Some (TimeError x)))
      | _ \<Rightarrow> ((cur, s), Some (TimeError ''input is not a JSON string''))))"

text \<open>
  A JSON object into a struct: the members are taken in order; a key that matches no
  field is skipped; \<open>null\<close> leaves the struct as it is; any other JSON value is a type
  error. \<open>setField\<close> stores a value into the field with the given tag.
\<close>

fun object :: "(string \<Rightarrow> json \<Rightarrow> 'v \<times> saved \<Rightarrow> ('v \<times> saved) \<times> error option) \<Rightarrow>
    string list \<Rightarrow> (string \<times> json) list \<Rightarrow> 'v \<times> saved \<Rightarrow> ('v \<times> saved) \<times> error option" where
  "object setField tags [] vs = (vs, None)"
| "object setField tags ((k, j) # kvs) vs =
     (case findField tags k of
        None \<Rightarrow> object setField tags kvs vs
      | Some tag \<Rightarrow>
          (case setField tag j vs of
             (vs', Some e) \<Rightarrow> (vs', Some e)
           | (vs', None) \<Rightarrow> object setField tags kvs vs'))"

definition struct :: "(string \<Rightarrow> json \<Rightarrow> 'v \<times> saved \<Rightarrow> ('v \<times> saved) \<times> error option) \<Rightarrow>
    string list \<Rightarrow> string \<Rightarrow> json \<Rightarrow> 'v \<times> saved \<Rightarrow> ('v \<times> saved) \<times> error option" where
  "struct setField tags ty j vs = (case vs of (cur, s) \<Rightarrow>
     (case j of
        JObj kvs \<Rightarrow> object setField tags kvs (cur, s)
      | JNull \<Rightarrow> ((cur, s), None)
      | _ \<Rightarrow> ((cur, saveError (UnmarshalTypeError (kindOf j) ty) s), None)))"

text \<open>
  A JSON array into a slice, as the documentation of \<open>Unmarshal\<close> has it: the length is
  reset to zero and each element is appended, decoded into a zero value; \<open>null\<close> makes
  the slice nil; an empty array makes it empty and not nil. When an element stops the
  decoding, the slice keeps the elements decoded so far.
\<close>

fun array :: "(json \<Rightarrow> 'v \<times> saved \<Rightarrow> ('v \<times> saved) \<times> error option) \<Rightarrow> 'v \<Rightarrow>
    json list \<Rightarrow> 'v list \<times> saved \<Rightarrow> ('v list \<times> saved) \<times> error option" where
  "array elem z [] acc = (acc, None)"
| "array elem z (j # js) acc = (case acc of (xs, s) \<Rightarrow>
     (case elem j (z, s) of
        ((x, s'), Some e) \<Rightarrow> ((xs @ [x], s'), Some e)
      | ((x, s'), None) \<Rightarrow> array elem z js (xs @ [x], s')))"

definition slice :: "(json \<Rightarrow> 'v \<times> saved \<Rightarrow> ('v \<times> saved) \<times> error option) \<Rightarrow> 'v \<Rightarrow>
    string \<Rightarrow> json \<Rightarrow> 'v list option \<times> saved \<Rightarrow> ('v list option \<times> saved) \<times> error option" where
  "slice elem z ty j vs = (case vs of (cur, s) \<Rightarrow>
     (case j of
        JArr js \<Rightarrow> (case array elem z js ([], s) of ((xs, s'), e) \<Rightarrow> ((Some xs, s'), e))
      | JNull \<Rightarrow> ((None, s), None)
      | _ \<Rightarrow> ((cur, saveError (UnmarshalTypeError (kindOf j) ty) s), None)))"

definition setFillField :: "env \<Rightarrow> string \<Rightarrow> json \<Rightarrow> Fill \<times> saved \<Rightarrow> (Fill \<times> saved) \<times> error option" where
  "setFillField w tag j vs = (case vs of (v, s) \<Rightarrow>
     (if tag = ''price'' then
        (case storeInt j (Fill.Price v, s) of ((x, s'), e) \<Rightarrow> ((v\<lparr>Fill.Price := x\<rparr>, s'), e))
      else if tag = ''qty'' then
        (case storeInt j (Fill.Quantity v, s) of ((x, s'), e) \<Rightarrow> ((v\<lparr>Fill.Quantity := x\<rparr>, s'), e))
      else if tag = ''ts'' then
        (case storeTime w j (Fill.TS v, s) of ((x, s'), e) \<Rightarrow> ((v\<lparr>Fill.TS := x\<rparr>, s'), e))
      else ((v, s), None)))"

definition valueFill :: "env \<Rightarrow> json \<Rightarrow> Fill \<times> saved \<Rightarrow> (Fill \<times> saved) \<times> error option" where
  "valueFill w = struct (setFillField w) fillTags ''Fill''"

definition setOrderField :: "env \<Rightarrow> string \<Rightarrow> json \<Rightarrow> Order \<times> saved \<Rightarrow> (Order \<times> saved) \<times> error option" where
  "setOrderField w tag j vs = (case vs of (v, s) \<Rightarrow>
     (if tag = ''account'' then
        (case storeString j (Account v, s) of ((x, s'), e) \<Rightarrow> ((v\<lparr>Account := x\<rparr>, s'), e))
      else if tag = ''venue'' then
        (case storeString j (Order.Venue v, s) of ((x, s'), e) \<Rightarrow> ((v\<lparr>Order.Venue := x\<rparr>, s'), e))
      else if tag = ''symbol'' then
        (case storeString j (Symbol v, s) of ((x, s'), e) \<Rightarrow> ((v\<lparr>Symbol := x\<rparr>, s'), e))
      else if tag = ''price'' then
        (case storeInt j (Order.Price v, s) of ((x, s'), e) \<Rightarrow> ((v\<lparr>Order.Price := x\<rparr>, s'), e))
      else if tag = ''orignialQty'' then
        (case storeInt j (OriginalQuantity v, s) of ((x, s'), e) \<Rightarrow> ((v\<lparr>OriginalQuantity := x\<rparr>, s'), e))
      else if tag = ''qty'' then
        (case storeInt j (Order.Quantity v, s) of ((x, s'), e) \<Rightarrow> ((v\<lparr>Order.Quantity := x\<rparr>, s'), e))
      else if tag = ''direction'' then
        (case storeString j (Direction v, s) of ((x, s'), e) \<Rightarrow> ((v\<lparr>Direction := x\<rparr>, s'), e))
      else if tag = ''orderType'' then
        (case storeString j (OrderType v, s) of ((x, s'), e) \<Rightarrow> ((v\<lparr>OrderType := x\<rparr>, s'), e))
      else if tag = ''id'' then
        (case storeInt j (ID v, s) of ((x, s'), e) \<Rightarrow> ((v\<lparr>ID := x\<rparr>, s'), e))
      else if tag = ''ts'' then
        (case storeTime w j (Order.TS v, s) of ((x, s'), e) \<Rightarrow> ((v\<lparr>Order.TS := x\<rparr>, s'), e))
      else if tag = ''fills'' then
        (case slice (valueFill w) zeroFill ''[]Fill'' j (Fills v, s) of
           ((x, s'), e) \<Rightarrow> ((v\<lparr>Fills := x\<rparr>, s'), e))
      else if tag = ''totalFilled'' then
        (case storeInt j (TotalFilled v, s) of ((x, s'), e) \<Rightarrow> ((v\<lparr>TotalFilled := x\<rparr>, s'), e))
      else if tag = ''open'' then
        (case storeBool j (Open v, s) of ((x, s'), e) \<Rightarrow> ((v\<lparr>Open := x\<rparr>, s'), e))
      else ((v, s), None)))"

definition valueOrder :: "env \<Rightarrow> json \<Rightarrow> Order \<times> saved \<Rightarrow> (Order \<times> saved) \<times> error option" where
  "valueOrder w = struct (setOrderField w) orderTags ''Order''"

definition setAllOrdersField :: "env \<Rightarrow> string \<Rightarrow> json \<Rightarrow> allOrdersStatusResult \<times> saved \<Rightarrow>
    (allOrdersStatusResult \<times> saved) \<times> error option" where
  "setAllOrdersField w tag j vs = (case vs of (v, s) \<Rightarrow>
     (if tag = ''ok'' then
        (case storeBool j (Ok v, s) of ((x, s'), e) \<Rightarrow> ((v\<lparr>Ok := x\<rparr>, s'), e))
      else if tag = ''venue'' then
        (case storeString j (allOrdersStatusResult.Venue v, s) of
           ((x, s'), e) \<Rightarrow> ((v\<lparr>allOrdersStatusResult.Venue := x\<rparr>, s'), e))
      else if tag = ''orders'' then
        (case slice (valueOrder w) zeroOrder ''[]Order'' j (Orders v, s) of
           ((x, s'), e) \<Rightarrow> ((v\<lparr>Orders := x\<rparr>, s'), e))
      else ((v, s), None)))"

definition valueAllOrders :: "env \<Rightarrow> json \<Rightarrow> allOrdersStatusResult \<times> saved \<Rightarrow>
    (allOrdersStatusResult \<times> saved) \<times> error option" where
  "valueAllOrders w = struct (setAllOrdersField w) allOrdersTags ''allOrdersStatusResult''"

text \<open>
  \<open>dec.Decode(&v)\<close>: the body is either unreadable as JSON (the error is returned and
  \<open>v\<close> is untouched) or a JSON value, which is stored into \<open>v\<close>; the call returns the
  stopping error if there is one and the saved type error otherwise.
\<close>

definition decodeWith :: "(json \<Rightarrow> 'v \<times> saved \<Rightarrow> ('v \<times> saved) \<times> error option) \<Rightarrow>
    error + json \<Rightarrow> 'v \<Rightarrow> 'v \<times> error option" where
  "decodeWith val body v = (case body of
       Inl e \<Rightarrow> (v, Some e)
     | Inr j \<Rightarrow> (case val j (v, None) of
         ((v', s), Some e) \<Rightarrow> (v', Some e)
       | ((v', s), None) \<Rightarrow> (v', s)))"

definition Decode_Order :: "env \<Rightarrow> error + json \<Rightarrow> Order \<Rightarrow> Order \<times> error option" where
  "Decode_Order w = decodeWith (valueOrder w)"

definition Decode_allOrdersStatusResult :: "env \<Rightarrow> error + json \<Rightarrow> allOrdersStatusResult \<Rightarrow>
    allOrdersStatusResult \<times> error option" where
  "Decode_allOrdersStatusResult w = decodeWith (valueAllOrders w)"

definition Decode_errorResult :: "env \<Rightarrow> error + json \<Rightarrow> errorResult \<Rightarrow> errorResult \<times> error option" where
  "Decode_errorResult w body v = (case body of
       Inl e \<Rightarrow> (v, Some e)
     | Inr j \<Rightarrow> unmarshalErrorResult w j)"

section \<open>net/http\<close>

type_synonym Header = "(string \<times> string list) list"

record Request =
  Method :: string
  URL :: string
  Header :: Header
  Body :: "json option"

text \<open>
  The body of a response is what a JSON decoder reads from it: an error when the
  bytes are not one JSON value (or cannot be read), the JSON value otherwise.
\<close>

record Response =
  StatusCode :: int
  Status :: string
  Body :: "error + json"

section \<open>The client instance\<close>

text \<open>
  The calls an operation makes into \<open>sync\<close> and \<open>net/http\<close>: \<open>EvRLock\<close> and
  \<open>EvRUnlock\<close> on the instance's read lock, \<open>EvNewRequest\<close> for \<open>http.NewRequest\<close> with
  the method and URL passed, \<open>EvDo\<close> for the HTTP client's \<open>Do\<close> with the request passed.
\<close>

datatype event = EvRLock | EvRUnlock | EvNewRequest string string | EvDo Request

text \<open>
  Modelled from the spec: the declaration of \<open>Instance\<close> is not in order.go. The fields
  are those order.go reads (\<open>account\<close>, \<open>venue\<close>, \<open>symbol\<close>, the header \<open>h\<close>, the HTTP
  client \<open>c\<close>) and the shared error accumulator \<open>err\<close> of the spec. The client, taken to
  be present, is the answer of its \<open>Do\<close> to a request: a response or nil, and an error or
  nil. \<open>trace\<close> is not a field of the Go struct: it lists, in order, the calls made
  through the instance.
\<close>

record Instance =
  account :: string
  venue :: string
  symbol :: string
  h :: Header
  c :: "Request \<Rightarrow> Response option \<times> error option"
  err :: "error option"
  trace :: "event list"

definition RLock :: "Instance \<Rightarrow> Instance" where
  "RLock i = i\<lparr>trace := trace i @ [EvRLock]\<rparr>"

definition RUnlock :: "Instance \<Rightarrow> Instance" where
  "RUnlock i = i\<lparr>trace := trace i @ [EvRUnlock]\<rparr>"

definition Do :: "Request \<Rightarrow> Instance \<Rightarrow> (Response option \<times> error option) \<times> Instance" where
  "Do req i = (c i req, i\<lparr>trace := trace i @ [EvDo req]\<rparr>)"

text \<open>
  \<open>http.NewRequest\<close> returns a nil request (and an error, which every caller in order.go
  discards) when the URL does not parse. The methods passed by order.go are the
  constants POST, DELETE and GET, all valid.
\<close>

definition NewRequest :: "env \<Rightarrow> string \<Rightarrow> string \<Rightarrow> json option \<Rightarrow> Instance \<Rightarrow>
    Request option \<times> Instance" where
  "NewRequest w method url body i =
     (if urlParses w url
      then Some \<lparr>Method = method, URL = url, Header = [], Request.Body = body\<rparr>
      else None,
      i\<lparr>trace := trace i @ [EvNewRequest method url]\<rparr>)"

text \<open>
  Modelled from the spec: \<open>setErr\<close> is not in order.go. Section 7 of the spec: every call
  records at most the first error encountered into a shared accumulator; subsequent
  calls do not clear it. A nil error is not an error and records nothing.
\<close>

definition setErr :: "error option \<Rightarrow> Instance \<Rightarrow> Instance" where
  "setErr e i = (case e of
       None \<Rightarrow> i
     | Some x \<Rightarrow> (case err i of None \<Rightarrow> i\<lparr>err := Some x\<rparr> | Some y \<Rightarrow> i))"

text \<open>
  Modelled from the spec: \<open>apiError\<close> is not in order.go. Section 8 of the spec: non-200
  responses populate the error field with the venue's message. The error it returns is
  built from the decoded message and the response status, and is never nil.
\<close>

definition apiError :: "string \<Rightarrow> string \<Rightarrow> error option" where
  "apiError msg status = Some (ApiError msg status)"

definition zeroErrorResult :: errorResult where
  "zeroErrorResult = \<lparr>Error = []\<rparr>"

text \<open>\<open>strconv.Itoa\<close>: decimal digits, with a minus sign for a negative number.\<close>

fun digitsOf :: "nat \<Rightarrow> string" where
  "digitsOf n = (if n < 10 then [''0123456789'' ! n]
     else digitsOf (n div 10) @ [''0123456789'' ! (n mod 10)])"

declare digitsOf.simps [simp del]

definition Itoa :: "int \<Rightarrow> string" where
  "Itoa n = (if n < 0 then CHR ''-'' # digitsOf (nat (- n)) else digitsOf (nat n))"

section \<open>The endpoint operations of order.go\<close>

text \<open>
  A call either returns a value or panics; in both cases the instance is left as the
  call changed it. The only panic of these operations is the dereference of a nil
  pointer: of the request, when \<open>http.NewRequest\<close> failed (\<open>req.Header = i.h\<close>), or of the
  response, when the client returned none (\<open>res.Body\<close>).
\<close>

datatype panic = NilDereference

datatype 'a result = Return 'a | Panic panic

definition NewOrder :: "env \<Rightarrow> int \<Rightarrow> int \<Rightarrow> orderDirection \<Rightarrow> orderType \<Rightarrow> Instance \<Rightarrow>
    Order result \<times> Instance" where
  "NewOrder w price quantity direction orderType i0 =
     (let v = zeroOrder;
          i1 = RLock i0;
          (b, jsonErr) = Marshal (orderRequest (account i1) (venue i1) (symbol i1)
                                    price quantity direction orderType);
          i2 = setErr jsonErr i1;
          url = baseURL w @ ''venues/'' @ venue i2 @ ''/stocks/'' @ symbol i2 @ ''/orders'';
          i3 = RUnlock i2;
          (req, i4) = NewRequest w ''POST'' url (Some b) i3
      in case req of
           None \<Rightarrow> (Panic NilDereference, i4)
         | Some req \<Rightarrow>
            (let req = req\<lparr>Header := h i4\<rparr>;
                 ((res, httpErr), i5) = Do req i4;
                 i6 = setErr httpErr i5
             in case res of
                  None \<Rightarrow> (Panic NilDereference, i6)
                | Some res \<Rightarrow>
                   (if StatusCode res = 200 then
                      (let (v, jsonErr) = Decode_Order w (Response.Body res) v
                       in (Return v, setErr jsonErr i6))
                    else
                      (let (ev, jsonErr) = Decode_errorResult w (Response.Body res) zeroErrorResult;
                           i7 = setErr (apiError (Error ev) (Status res)) i6
                       in (Return v, setErr jsonErr i7)))))"

definition CancelOrder :: "env \<Rightarrow> int \<Rightarrow> Instance \<Rightarrow> Order result \<times> Instance" where
  "CancelOrder w orderID i0 =
     (let v = zeroOrder;
          i1 = RLock i0;
          (req, i2) = NewRequest w ''DELETE''
                  (baseURL w @ ''venues/'' @ venue i1 @ ''/stocks/'' @ symbol i1 @ ''/orders/''
                     @ Itoa orderID) None i1;
          i3 = RUnlock i2
      in case req of
           None \<Rightarrow> (Panic NilDereference, i3)
         | Some req \<Rightarrow>
            (let req = req\<lparr>Header := h i3\<rparr>;
                 ((res, httpErr), i4) = Do req i3;
                 i5 = setErr httpErr i4
             in case res of
                  None \<Rightarrow> (Panic NilDereference, i5)
                | Some res \<Rightarrow>
                   (if StatusCode res = 200 then
                      (let (v, jsonErr) = Decode_Order w (Response.Body res) v
                       in (Return v, setErr jsonErr i5))
                    else
                      (let (ev, jsonErr) = Decode_errorResult w (Response.Body res) zeroErrorResult;
                           i6 = setErr (apiError (Error ev) (Status res)) i5
                       in (Return v, setErr jsonErr i6)))))"

definition OrderStatus :: "env \<Rightarrow> int \<Rightarrow> Instance \<Rightarrow> Order result \<times> Instance" where
  "OrderStatus w orderID i0 =
     (let v = zeroOrder;
          i1 = RLock i0;
          (req, i2) = NewRequest w ''GET''
                  (baseURL w @ ''venues/'' @ venue i1 @ ''/stocks/'' @ symbol i1 @ ''/orders/''
                     @ Itoa orderID) None i1;
          i3 = RUnlock i2
      in case req of
           None \<Rightarrow> (Panic NilDereference, i3)
         | Some req \<Rightarrow>
            (let req = req\<lparr>Header := h i3\<rparr>;
                 ((res, httpErr), i4) = Do req i3;
                 i5 = setErr httpErr i4
             in case res of
                  None \<Rightarrow> (Panic NilDereference, i5)
                | Some res \<Rightarrow>
                   (if StatusCode res = 200 then
                      (let (v, jsonErr) = Decode_Order w (Response.Body res) v
                       in (Return v, setErr jsonErr i5))
                    else
                      (let (ev, jsonErr) = Decode_errorResult w (Response.Body res) zeroErrorResult;
                           i6 = setErr (apiError (Error ev) (Status res)) i5
                       in (Return v, setErr jsonErr i6)))))"

definition AccountOrderStatus :: "env \<Rightarrow> Instance \<Rightarrow> Order list option result \<times> Instance" where
  "AccountOrderStatus w i0 =
     (let i1 = RLock i0;
          (req, i2) = NewRequest w ''GET''
                  (baseURL w @ ''venues/'' @ venue i1 @ ''/accounts/'' @ account i1 @ ''/orders'')
                  None i1;
          i3 = RUnlock i2
      in case req of
           None \<Rightarrow> (Panic NilDereference, i3)
         | Some req \<Rightarrow>
            (let req = req\<lparr>Header := h i3\<rparr>;
                 ((res, httpErr), i4) = Do req i3;
                 i5 = setErr httpErr i4
             in case res of
                  None \<Rightarrow> (Panic NilDereference, i5)
                | Some res \<Rightarrow>
                   (if StatusCode res = 200 then
                      (let (v, jsonErr) = Decode_allOrdersStatusResult w (Response.Body res)
                                            zeroAllOrdersStatusResult
                       in (Return (Orders v), i5))
                    else
                      (let (v, jsonErr) = Decode_errorResult w (Response.Body res) zeroErrorResult;
                           i6 = setErr (apiError (Error v) (Status res)) i5
                       in (Return None, setErr jsonErr i6)))))"

definition StockOrderStatus :: "env \<Rightarrow> Instance \<Rightarrow> Order list option result \<times> Instance" where
  "StockOrderStatus w i0 =
     (let i1 = RLock i0;
          (req, i2) = NewRequest w ''GET''
                  (baseURL w @ ''venues/'' @ venue i1 @ ''/accounts/'' @ account i1 @ ''/stocks/''
                     @ symbol i1 @ ''/orders'') None i1;
          i3 = RUnlock i2
      in case req of
           None \<Rightarrow> (Panic NilDereference, i3)
         | Some req \<Rightarrow>
            (let req = req\<lparr>Header := h i3\<rparr>;
                 ((res, httpErr), i4) = Do req i3;
                 i5 = setErr httpErr i4
             in case res of
                  None \<Rightarrow> (Panic NilDereference, i5)
                | Some res \<Rightarrow>
                   (if StatusCode res = 200 then
                      (let (v, jsonErr) = Decode_allOrdersStatusResult w (Response.Body res)
                                            zeroAllOrdersStatusResult
                       in (Return (Orders v), i5))
                    else
                      (let (v, jsonErr) = Decode_errorResult w (Response.Body res) zeroErrorResult;
                           i6 = setErr (apiError (Error v) (Status res)) i5
                       in (Return None, setErr jsonErr i6)))))"

section \<open>Observations on a run\<close>

text \<open>The requests passed to the HTTP client, in order.\<close>

fun requests :: "event list \<Rightarrow> Request list" where
  "requests [] = []"
| "requests (EvDo r # evs) = r # requests evs"
| "requests (EvRLock # evs) = requests evs"
| "requests (EvRUnlock # evs) = requests evs"
| "requests (EvNewRequest m u # evs) = requests evs"

text \<open>Method and URL of the requests built with \<open>http.NewRequest\<close>, in order.\<close>

fun built :: "event list \<Rightarrow> (string \<times> string) list" where
  "built [] = []"
| "built (EvNewRequest m u # evs) = (m, u) # built evs"
| "built (EvRLock # evs) = built evs"
| "built (EvRUnlock # evs) = built evs"
| "built (EvDo r # evs) = built evs"

text \<open>
  Method and URL of the requests an instance has built, and of those it has passed to
  the HTTP client.
\<close>

definition constructed :: "Instance \<Rightarrow> (string \<times> string) list" where
  "constructed i = built (trace i)"

definition sent :: "Instance \<Rightarrow> (string \<times> string) list" where
  "sent i = map (\<lambda>r. (Method r, URL r)) (requests (trace i))"

text \<open>The value of a member of a JSON object.\<close>

definition jsonMember :: "string \<Rightarrow> json \<Rightarrow> json option" where
  "jsonMember k j = (case j of JObj kvs \<Rightarrow> map_of kvs k | _ \<Rightarrow> None)"

text \<open>
  A JSON value that is not an object, or an object none of whose keys equals \<open>tag\<close>
  under the decoder's case folding.
\<close>

definition lacksKey :: "string \<Rightarrow> json \<Rightarrow> bool" where
  "lacksKey tag j = (case j of
       JObj kvs \<Rightarrow> list_all (\<lambda>kv. foldName (fst kv) \<noteq> foldName tag) kvs
     | _ \<Rightarrow> True)"

text \<open>
  A JSON value in which every element of every array that is a member of the top-level
  object lacks the key: a list body none of whose orders carries it.
\<close>

definition ordersLackKey :: "string \<Rightarrow> json \<Rightarrow> bool" where
  "ordersLackKey tag j = (case j of
       JObj kvs \<Rightarrow> list_all (\<lambda>kv. case snd kv of
           JArr js \<Rightarrow> list_all (lacksKey tag) js
         | _ \<Rightarrow> True) kvs
     | _ \<Rightarrow> True)"

definition allZeroOriginalQuantity :: "Order list option \<Rightarrow> bool" where
  "allZeroOriginalQuantity os = (case os of
       None \<Rightarrow> True
     | Some xs \<Rightarrow> list_all (\<lambda>x. OriginalQuantity x = 0) xs)"

text \<open>The integer written by a decimal numeral with an optional minus sign.\<close>

definition natOfDigits :: "string \<Rightarrow> nat" where
  "natOfDigits ds = foldl (\<lambda>a ch. 10 * a + (of_char ch - 48)) 0 ds"

definition decimalValue :: "string \<Rightarrow> int" where
  "decimalValue s = (case s of
       [] \<Rightarrow> 0
     | ch # ds \<Rightarrow> if ch = CHR ''-'' then - int (natOfDigits ds) else int (natOfDigits s))"

text \<open>
  The request each operation builds, for an instance \<open>i\<close> as it is when the call starts.
\<close>

abbreviation reqNewOrder :: "env \<Rightarrow> Instance \<Rightarrow> int \<Rightarrow> int \<Rightarrow> orderDirection \<Rightarrow> orderType \<Rightarrow> Request" where
  "reqNewOrder w i price quantity direction orderType \<equiv>
     \<lparr>Method = ''POST'',
      URL = baseURL w @ ''venues/'' @ venue i @ ''/stocks/'' @ symbol i @ ''/orders'',
      Header = h i,
      Request.Body = Some (JObj [(''account'', JStr (account i)), (''venue'', JStr (venue i)),
        (''symbol'', JStr (symbol i)), (''price'', JInt price), (''qty'', JInt quantity),
        (''direction'', JStr direction), (''orderType'', JStr orderType)])\<rparr>"

abbreviation reqCancelOrder :: "env \<Rightarrow> Instance \<Rightarrow> int \<Rightarrow> Request" where
  "reqCancelOrder w i orderID \<equiv>
     \<lparr>Method = ''DELETE'',
      URL = baseURL w @ ''venues/'' @ venue i @ ''/stocks/'' @ symbol i @ ''/orders/'' @ Itoa orderID,
      Header = h i, Request.Body = None\<rparr>"

abbreviation reqOrderStatus :: "env \<Rightarrow> Instance \<Rightarrow> int \<Rightarrow> Request" where
  "reqOrderStatus w i orderID \<equiv>
     \<lparr>Method = ''GET'',
      URL = baseURL w @ ''venues/'' @ venue i @ ''/stocks/'' @ symbol i @ ''/orders/'' @ Itoa orderID,
      Header = h i, Request.Body = None\<rparr>"

abbreviation reqAccountOrderStatus :: "env \<Rightarrow> Instance \<Rightarrow> Request" where
  "reqAccountOrderStatus w i \<equiv>
     \<lparr>Method = ''GET'',
      URL = baseURL w @ ''venues/'' @ venue i @ ''/accounts/'' @ account i @ ''/orders'',
      Header = h i, Request.Body = None\<rparr>"

abbreviation reqStockOrderStatus :: "env \<Rightarrow> Instance \<Rightarrow> Request" where
  "reqStockOrderStatus w i \<equiv>
     \<lparr>Method = ''GET'',
      URL = baseURL w @ ''venues/'' @ venue i @ ''/accounts/'' @ account i @ ''/stocks/''
              @ symbol i @ ''/orders'',
      Header = h i, Request.Body = None\<rparr>"

text \<open>The error body of a failed call, as the operations decode it.\<close>

abbreviation venueMessage :: "env \<Rightarrow> Response \<Rightarrow> string" where
  "venueMessage w r \<equiv> Error (fst (Decode_errorResult w (Response.Body r) zeroErrorResult))"

section \<open>A concrete environment and instance\<close>

text \<open>
  One way in which \<open>net/url\<close> rejects a URL: a percent sign that is not followed by two
  hexadecimal digits.
\<close>

definition ishex :: "char \<Rightarrow> bool" where
  "ishex ch = (let n = (of_char ch :: nat) in
     (48 \<le> n \<and> n \<le> 57) \<or> (97 \<le> n \<and> n \<le> 102) \<or> (65 \<le> n \<and> n \<le> 70))"

fun escapesOK :: "string \<Rightarrow> bool" where
  "escapesOK (x # a # b # rest) =
     (if x = CHR ''%'' then ishex a \<and> ishex b \<and> escapesOK rest else escapesOK (a # b # rest))"
| "escapesOK [x, a] = (x \<noteq> CHR ''%'' \<and> a \<noteq> CHR ''%'')"
| "escapesOK [x] = (x \<noteq> CHR ''%'')"
| "escapesOK [] = True"

text \<open>An error body with its message under the key \<open>error\<close>.\<close>

definition exampleErrorResult :: "json \<Rightarrow> errorResult \<times> error option" where
  "exampleErrorResult j = (case j of
       JObj kvs \<Rightarrow> (case map_of kvs ''error'' of
           Some (JStr m) \<Rightarrow> (\<lparr>Error = m\<rparr>, None)
         | _ \<Rightarrow> (\<lparr>Error = []\<rparr>, None))
     | _ \<Rightarrow> (\<lparr>Error = []\<rparr>, Some (UnmarshalTypeError (kindOf j) ''errorResult'')))"

text \<open>
  An environment for the examples: the base URL of the venue's API, URL parsing reduced
  to the check of percent escapes, time parsing reduced to one timestamp.
\<close>

definition exampleEnv :: env where
  "exampleEnv = \<lparr>baseURL = ''https://api.stockfighter.io/ob/api/'',
     urlParses = escapesOK,
     validTime = (\<lambda>s. s = ''2015-12-04T21:13:25Z''),
     unmarshalErrorResult = exampleErrorResult\<rparr>"

text \<open>
  An instance on the test venue whose client answers every request with \<open>answer\<close>, holding
  the error \<open>e\<close>.
\<close>

definition exampleInstance :: "Response option \<times> error option \<Rightarrow> error option \<Rightarrow> Instance" where
  "exampleInstance answer e = \<lparr>account = ''EXB123456'', venue = ''TESTEX'', symbol = ''FOOBAR'',
     h = [(''X-Starfighter-Authorization'', [''key''])], c = (\<lambda>req. answer), err = e, trace = []\<rparr>"

text \<open>
  Two answers of the venue: a refusal with an error body, and a 200 response whose body
  is not JSON.
\<close>

definition unauthorized :: Response where
  "unauthorized = \<lparr>StatusCode = 401, Status = ''401 Unauthorized'',
     Response.Body = Inr (JObj [(''ok'', JBool False), (''error'', JStr ''Not authorized'')])\<rparr>"

definition garbled :: Response where
  "garbled = \<lparr>StatusCode = 200, Status = ''200 OK'',
     Response.Body = Inl (SyntaxError ''invalid character'')\<rparr>"

section \<open>Auxiliary facts\<close>

lemma err_setErr: "err (setErr x i) = (case err i of Some y \<Rightarrow> Some y | None \<Rightarrow> x)"
  by (simp add: setErr_def split: option.splits)

lemma trace_setErr: "trace (setErr x i) = trace i"
  by (simp add: setErr_def split: option.splits)

lemma setErr_None: "setErr None i = i"
  by (simp add: setErr_def)

lemma requests_append: "requests (xs @ ys) = requests xs @ requests ys"
  by (induction xs rule: requests.induct) simp_all

lemma built_append: "built (xs @ ys) = built xs @ built ys"
  by (induction xs rule: built.induct) simp_all

lemmas op_defs = NewRequest_def RLock_def RUnlock_def Do_def Let_def Marshal_def setErr_None

subsection \<open>The four ways through each operation\<close>

lemma NewOrder_norequest:
  "\<not> urlParses w (URL (reqNewOrder w i p q d t)) \<Longrightarrow>
   NewOrder w p q d t i = (Panic NilDereference, i\<lparr>trace := trace i @
      [EvRLock, EvRUnlock,
       EvNewRequest ''POST'' (URL (reqNewOrder w i p q d t))]\<rparr>)"
  by (simp add: NewOrder_def op_defs)

lemma NewOrder_noresponse:
  "urlParses w (URL (reqNewOrder w i p q d t)) \<Longrightarrow> c i (reqNewOrder w i p q d t) = (None, e) \<Longrightarrow>
   NewOrder w p q d t i = (Panic NilDereference, setErr e (i\<lparr>trace := trace i @
      [EvRLock, EvRUnlock,
       EvNewRequest ''POST'' (URL (reqNewOrder w i p q d t)),
       EvDo (reqNewOrder w i p q d t)]\<rparr>))"
  by (simp add: NewOrder_def op_defs)

lemma NewOrder_200:
  "urlParses w (URL (reqNewOrder w i p q d t)) \<Longrightarrow> c i (reqNewOrder w i p q d t) = (Some r, e) \<Longrightarrow>
   StatusCode r = 200 \<Longrightarrow>
   NewOrder w p q d t i = (Return (fst (Decode_Order w (Response.Body r) zeroOrder)),
      setErr (snd (Decode_Order w (Response.Body r) zeroOrder)) (setErr e (i\<lparr>trace := trace i @
      [EvRLock, EvRUnlock,
       EvNewRequest ''POST'' (URL (reqNewOrder w i p q d t)),
       EvDo (reqNewOrder w i p q d t)]\<rparr>)))"
  by (simp add: NewOrder_def op_defs split: prod.splits)

lemma NewOrder_non200:
  "urlParses w (URL (reqNewOrder w i p q d t)) \<Longrightarrow> c i (reqNewOrder w i p q d t) = (Some r, e) \<Longrightarrow>
   StatusCode r \<noteq> 200 \<Longrightarrow>
   NewOrder w p q d t i = (Return zeroOrder,
      setErr (snd (Decode_errorResult w (Response.Body r) zeroErrorResult))
        (setErr (apiError (venueMessage w r) (Status r))
          (setErr e (i\<lparr>trace := trace i @
      [EvRLock, EvRUnlock,
       EvNewRequest ''POST'' (URL (reqNewOrder w i p q d t)),
       EvDo (reqNewOrder w i p q d t)]\<rparr>))))"
  by (simp add: NewOrder_def op_defs split: prod.splits)

lemma NewOrder_cases:
  obtains
    (norequest) "\<not> urlParses w (URL (reqNewOrder w i p q d t))"
  | (noresponse) e where "urlParses w (URL (reqNewOrder w i p q d t))" "c i (reqNewOrder w i p q d t) = (None, e)"
  | (ok) r e where "urlParses w (URL (reqNewOrder w i p q d t))" "c i (reqNewOrder w i p q d t) = (Some r, e)" "StatusCode r = 200"
  | (failed) r e where "urlParses w (URL (reqNewOrder w i p q d t))" "c i (reqNewOrder w i p q d t) = (Some r, e)" "StatusCode r \<noteq> 200"
proof (cases "urlParses w (URL (reqNewOrder w i p q d t))")
  case False
  then show ?thesis by (rule norequest)
next
  case True
  obtain res e where ans: "c i (reqNewOrder w i p q d t) = (res, e)"
    by (cases "c i (reqNewOrder w i p q d t)")
  show ?thesis
  proof (cases res)
    case None
    with True ans show ?thesis by (intro noresponse) simp_all
  next
    case (Some r)
    with True ans show ?thesis by (cases "StatusCode r = 200") (auto intro: ok failed)
  qed
qed

lemma NewOrder_sticky:
  "err i = Some x \<Longrightarrow> err (snd (NewOrder w p q d t i)) = Some x"
  by (cases rule: NewOrder_cases [of w i p q d t])
     (simp_all add: NewOrder_norequest NewOrder_noresponse NewOrder_200 NewOrder_non200 err_setErr)

lemma NewOrder_trace:
  "trace (snd (NewOrder w p q d t i)) = trace i @ [EvRLock, EvRUnlock,
       EvNewRequest ''POST'' (URL (reqNewOrder w i p q d t))]
     @ (if urlParses w (URL (reqNewOrder w i p q d t)) then [EvDo (reqNewOrder w i p q d t)] else [])"
  by (cases rule: NewOrder_cases [of w i p q d t])
     (simp_all add: NewOrder_norequest NewOrder_noresponse NewOrder_200 NewOrder_non200 trace_setErr)

lemma NewOrder_err_transport:
  "urlParses w (URL (reqNewOrder w i p q d t)) \<Longrightarrow> snd (c i (reqNewOrder w i p q d t)) = Some x \<Longrightarrow>
   err (snd (NewOrder w p q d t i)) = (case err i of Some y \<Rightarrow> Some y | None \<Rightarrow> Some x)"
  by (cases rule: NewOrder_cases [of w i p q d t])
     (simp_all add: NewOrder_noresponse NewOrder_200 NewOrder_non200 err_setErr split: option.splits)

lemma NewOrder_err_non200:
  "urlParses w (URL (reqNewOrder w i p q d t)) \<Longrightarrow> c i (reqNewOrder w i p q d t) = (Some r, e) \<Longrightarrow> StatusCode r \<noteq> 200 \<Longrightarrow>
   err (snd (NewOrder w p q d t i)) =
     (case err i of
        Some y \<Rightarrow> Some y
      | None \<Rightarrow> (case e of
          Some z \<Rightarrow> Some z
        | None \<Rightarrow> Some (ApiError (venueMessage w r) (Status r))))"
  by (simp add: NewOrder_non200 err_setErr apiError_def split: option.splits)

lemma NewOrder_requests:
  "requests (trace (snd (NewOrder w p q d t i))) = requests (trace i)
     @ (if urlParses w (URL (reqNewOrder w i p q d t)) then [reqNewOrder w i p q d t] else [])"
  by (simp add: NewOrder_trace requests_append)

lemma NewOrder_built:
  "built (trace (snd (NewOrder w p q d t i))) = built (trace i) @ [(''POST'', URL (reqNewOrder w i p q d t))]"
  by (simp add: NewOrder_trace built_append)

lemma CancelOrder_norequest:
  "\<not> urlParses w (URL (reqCancelOrder w i n)) \<Longrightarrow>
   CancelOrder w n i = (Panic NilDereference, i\<lparr>trace := trace i @
      [EvRLock,
       EvNewRequest ''DELETE'' (URL (reqCancelOrder w i n)),
       EvRUnlock]\<rparr>)"
  by (simp add: CancelOrder_def op_defs)

lemma CancelOrder_noresponse:
  "urlParses w (URL (reqCancelOrder w i n)) \<Longrightarrow> c i (reqCancelOrder w i n) = (None, e) \<Longrightarrow>
   CancelOrder w n i = (Panic NilDereference, setErr e (i\<lparr>trace := trace i @
      [EvRLock,
       EvNewRequest ''DELETE'' (URL (reqCancelOrder w i n)),
       EvRUnlock,
       EvDo (reqCancelOrder w i n)]\<rparr>))"
  by (simp add: CancelOrder_def op_defs)

lemma CancelOrder_200:
  "urlParses w (URL (reqCancelOrder w i n)) \<Longrightarrow> c i (reqCancelOrder w i n) = (Some r, e) \<Longrightarrow>
   StatusCode r = 200 \<Longrightarrow>
   CancelOrder w n i = (Return (fst (Decode_Order w (Response.Body r) zeroOrder)),
      setErr (snd (Decode_Order w (Response.Body r) zeroOrder)) (setErr e (i\<lparr>trace := trace i @
      [EvRLock,
       EvNewRequest ''DELETE'' (URL (reqCancelOrder w i n)),
       EvRUnlock,
       EvDo (reqCancelOrder w i n)]\<rparr>)))"
  by (simp add: CancelOrder_def op_defs split: prod.splits)

lemma CancelOrder_non200:
  "urlParses w (URL (reqCancelOrder w i n)) \<Longrightarrow> c i (reqCancelOrder w i n) = (Some r, e) \<Longrightarrow>
   StatusCode r \<noteq> 200 \<Longrightarrow>
   CancelOrder w n i = (Return zeroOrder,
      setErr (snd (Decode_errorResult w (Response.Body r) zeroErrorResult))
        (setErr (apiError (venueMessage w r) (Status r))
          (setErr e (i\<lparr>trace := trace i @
      [EvRLock,
       EvNewRequest ''DELETE'' (URL (reqCancelOrder w i n)),
       EvRUnlock,
       EvDo (reqCancelOrder w i n)]\<rparr>))))"
  by (simp add: CancelOrder_def op_defs split: prod.splits)

lemma CancelOrder_cases:
  obtains
    (norequest) "\<not> urlParses w (URL (reqCancelOrder w i n))"
  | (noresponse) e where "urlParses w (URL (reqCancelOrder w i n))" "c i (reqCancelOrder w i n) = (None, e)"
  | (ok) r e where "urlParses w (URL (reqCancelOrder w i n))" "c i (reqCancelOrder w i n) = (Some r, e)" "StatusCode r = 200"
  | (failed) r e where "urlParses w (URL (reqCancelOrder w i n))" "c i (reqCancelOrder w i n) = (Some r, e)" "StatusCode r \<noteq> 200"
proof (cases "urlParses w (URL (reqCancelOrder w i n))")
  case False
  then show ?thesis by (rule norequest)
next
  case True
  obtain res e where ans: "c i (reqCancelOrder w i n) = (res, e)"
    by (cases "c i (reqCancelOrder w i n)")
  show ?thesis
  proof (cases res)
    case None
    with True ans show ?thesis by (intro noresponse) simp_all
  next
    case (Some r)
    with True ans show ?thesis by (cases "StatusCode r = 200") (auto intro: ok failed)
  qed
qed

lemma CancelOrder_sticky:
  "err i = Some x \<Longrightarrow> err (snd (CancelOrder w n i)) = Some x"
  by (cases rule: CancelOrder_cases [of w i n])
     (simp_all add: CancelOrder_norequest CancelOrder_noresponse CancelOrder_200 CancelOrder_non200 err_setErr)

lemma CancelOrder_trace:
  "trace (snd (CancelOrder w n i)) = trace i @ [EvRLock,
       EvNewRequest ''DELETE'' (URL (reqCancelOrder w i n)),
       EvRUnlock]
     @ (if urlParses w (URL (reqCancelOrder w i n)) then [EvDo (reqCancelOrder w i n)] else [])"
  by (cases rule: CancelOrder_cases [of w i n])
     (simp_all add: CancelOrder_norequest CancelOrder_noresponse CancelOrder_200 CancelOrder_non200 trace_setErr)

lemma CancelOrder_err_transport:
  "urlParses w (URL (reqCancelOrder w i n)) \<Longrightarrow> snd (c i (reqCancelOrder w i n)) = Some x \<Longrightarrow>
   err (snd (CancelOrder w n i)) = (case err i of Some y \<Rightarrow> Some y | None \<Rightarrow> Some x)"
  by (cases rule: CancelOrder_cases [of w i n])
     (simp_all add: CancelOrder_noresponse CancelOrder_200 CancelOrder_non200 err_setErr split: option.splits)

lemma CancelOrder_err_non200:
  "urlParses w (URL (reqCancelOrder w i n)) \<Longrightarrow> c i (reqCancelOrder w i n) = (Some r, e) \<Longrightarrow> StatusCode r \<noteq> 200 \<Longrightarrow>
   err (snd (CancelOrder w n i)) =
     (case err i of
        Some y \<Rightarrow> Some y
      | None \<Rightarrow> (case e of
          Some z \<Rightarrow> Some z
        | None \<Rightarrow> Some (ApiError (venueMessage w r) (Status r))))"
  by (simp add: CancelOrder_non200 err_setErr apiError_def split: option.splits)

lemma CancelOrder_requests:
  "requests (trace (snd (CancelOrder w n i))) = requests (trace i)
     @ (if urlParses w (URL (reqCancelOrder w i n)) then [reqCancelOrder w i n] else [])"
  by (simp add: CancelOrder_trace requests_append)

lemma CancelOrder_built:
  "built (trace (snd (CancelOrder w n i))) = built (trace i) @ [(''DELETE'', URL (reqCancelOrder w i n))]"
  by (simp add: CancelOrder_trace built_append)

lemma OrderStatus_norequest:
  "\<not> urlParses w (URL (reqOrderStatus w i n)) \<Longrightarrow>
   OrderStatus w n i = (Panic NilDereference, i\<lparr>trace := trace i @
      [EvRLock,
       EvNewRequest ''GET'' (URL (reqOrderStatus w i n)),
       EvRUnlock]\<rparr>)"
  by (simp add: OrderStatus_def op_defs)

lemma OrderStatus_noresponse:
  "urlParses w (URL (reqOrderStatus w i n)) \<Longrightarrow> c i (reqOrderStatus w i n) = (None, e) \<Longrightarrow>
   OrderStatus w n i = (Panic NilDereference, setErr e (i\<lparr>trace := trace i @
      [EvRLock,
       EvNewRequest ''GET'' (URL (reqOrderStatus w i n)),
       EvRUnlock,
       EvDo (reqOrderStatus w i n)]\<rparr>))"
  by (simp add: OrderStatus_def op_defs)

lemma OrderStatus_200:
  "urlParses w (URL (reqOrderStatus w i n)) \<Longrightarrow> c i (reqOrderStatus w i n) = (Some r, e) \<Longrightarrow>
   StatusCode r = 200 \<Longrightarrow>
   OrderStatus w n i = (Return (fst (Decode_Order w (Response.Body r) zeroOrder)),
      setErr (snd (Decode_Order w (Response.Body r) zeroOrder)) (setErr e (i\<lparr>trace := trace i @
      [EvRLock,
       EvNewRequest ''GET'' (URL (reqOrderStatus w i n)),
       EvRUnlock,
       EvDo (reqOrderStatus w i n)]\<rparr>)))"
  by (simp add: OrderStatus_def op_defs split: prod.splits)

lemma OrderStatus_non200:
  "urlParses w (URL (reqOrderStatus w i n)) \<Longrightarrow> c i (reqOrderStatus w i n) = (Some r, e) \<Longrightarrow>
   StatusCode r \<noteq> 200 \<Longrightarrow>
   OrderStatus w n i = (Return zeroOrder,
      setErr (snd (Decode_errorResult w (Response.Body r) zeroErrorResult))
        (setErr (apiError (venueMessage w r) (Status r))
          (setErr e (i\<lparr>trace := trace i @
      [EvRLock,
       EvNewRequest ''GET'' (URL (reqOrderStatus w i n)),
       EvRUnlock,
       EvDo (reqOrderStatus w i n)]\<rparr>))))"
  by (simp add: OrderStatus_def op_defs split: prod.splits)

lemma OrderStatus_cases:
  obtains
    (norequest) "\<not> urlParses w (URL (reqOrderStatus w i n))"
  | (noresponse) e where "urlParses w (URL (reqOrderStatus w i n))" "c i (reqOrderStatus w i n) = (None, e)"
  | (ok) r e where "urlParses w (URL (reqOrderStatus w i n))" "c i (reqOrderStatus w i n) = (Some r, e)" "StatusCode r = 200"
  | (failed) r e where "urlParses w (URL (reqOrderStatus w i n))" "c i (reqOrderStatus w i n) = (Some r, e)" "StatusCode r \<noteq> 200"
proof (cases "urlParses w (URL (reqOrderStatus w i n))")
  case False
  then show ?thesis by (rule norequest)
next
  case True
  obtain res e where ans: "c i (reqOrderStatus w i n) = (res, e)"
    by (cases "c i (reqOrderStatus w i n)")
  show ?thesis
  proof (cases res)
    case None
    with True ans show ?thesis by (intro noresponse) simp_all
  next
    case (Some r)
    with True ans show ?thesis by (cases "StatusCode r = 200") (auto intro: ok failed)
  qed
qed

lemma OrderStatus_sticky:
  "err i = Some x \<Longrightarrow> err (snd (OrderStatus w n i)) = Some x"
  by (cases rule: OrderStatus_cases [of w i n])
     (simp_all add: OrderStatus_norequest OrderStatus_noresponse OrderStatus_200 OrderStatus_non200 err_setErr)

lemma OrderStatus_trace:
  "trace (snd (OrderStatus w n i)) = trace i @ [EvRLock,
       EvNewRequest ''GET'' (URL (reqOrderStatus w i n)),
       EvRUnlock]
     @ (if urlParses w (URL (reqOrderStatus w i n)) then [EvDo (reqOrderStatus w i n)] else [])"
  by (cases rule: OrderStatus_cases [of w i n])
     (simp_all add: OrderStatus_norequest OrderStatus_noresponse OrderStatus_200 OrderStatus_non200 trace_setErr)

lemma OrderStatus_err_transport:
  "urlParses w (URL (reqOrderStatus w i n)) \<Longrightarrow> snd (c i (reqOrderStatus w i n)) = Some x \<Longrightarrow>
   err (snd (OrderStatus w n i)) = (case err i of Some y \<Rightarrow> Some y | None \<Rightarrow> Some x)"
  by (cases rule: OrderStatus_cases [of w i n])
     (simp_all add: OrderStatus_noresponse OrderStatus_200 OrderStatus_non200 err_setErr split: option.splits)

lemma OrderStatus_err_non200:
  "urlParses w (URL (reqOrderStatus w i n)) \<Longrightarrow> c i (reqOrderStatus w i n) = (Some r, e) \<Longrightarrow> StatusCode r \<noteq> 200 \<Longrightarrow>
   err (snd (OrderStatus w n i)) =
     (case err i of
        Some y \<Rightarrow> Some y
      | None \<Rightarrow> (case e of
          Some z \<Rightarrow> Some z
        | None \<Rightarrow> Some (ApiError (venueMessage w r) (Status r))))"
  by (simp add: OrderStatus_non200 err_setErr apiError_def split: option.splits)

lemma OrderStatus_requests:
  "requests (trace (snd (OrderStatus w n i))) = requests (trace i)
     @ (if urlParses w (URL (reqOrderStatus w i n)) then [reqOrderStatus w i n] else [])"
  by (simp add: OrderStatus_trace requests_append)

lemma OrderStatus_built:
  "built (trace (snd (OrderStatus w n i))) = built (trace i) @ [(''GET'', URL (reqOrderStatus w i n))]"
  by (simp add: OrderStatus_trace built_append)

lemma AccountOrderStatus_norequest:
  "\<not> urlParses w (URL (reqAccountOrderStatus w i)) \<Longrightarrow>
   AccountOrderStatus w i = (Panic NilDereference, i\<lparr>trace := trace i @
      [EvRLock,
       EvNewRequest ''GET'' (URL (reqAccountOrderStatus w i)),
       EvRUnlock]\<rparr>)"
  by (simp add: AccountOrderStatus_def op_defs)

lemma AccountOrderStatus_noresponse:
  "urlParses w (URL (reqAccountOrderStatus w i)) \<Longrightarrow> c i (reqAccountOrderStatus w i) = (None, e) \<Longrightarrow>
   AccountOrderStatus w i = (Panic NilDereference, setErr e (i\<lparr>trace := trace i @
      [EvRLock,
       EvNewRequest ''GET'' (URL (reqAccountOrderStatus w i)),
       EvRUnlock,
       EvDo (reqAccountOrderStatus w i)]\<rparr>))"
  by (simp add: AccountOrderStatus_def op_defs)

lemma AccountOrderStatus_200:
  "urlParses w (URL (reqAccountOrderStatus w i)) \<Longrightarrow> c i (reqAccountOrderStatus w i) = (Some r, e) \<Longrightarrow>
   StatusCode r = 200 \<Longrightarrow>
   AccountOrderStatus w i = (Return (Orders (fst (Decode_allOrdersStatusResult w (Response.Body r) zeroAllOrdersStatusResult))),
      setErr e (i\<lparr>trace := trace i @
      [EvRLock,
       EvNewRequest ''GET'' (URL (reqAccountOrderStatus w i)),
       EvRUnlock,
       EvDo (reqAccountOrderStatus w i)]\<rparr>))"
  by (simp add: AccountOrderStatus_def op_defs split: prod.splits)

lemma AccountOrderStatus_non200:
  "urlParses w (URL (reqAccountOrderStatus w i)) \<Longrightarrow> c i (reqAccountOrderStatus w i) = (Some r, e) \<Longrightarrow>
   StatusCode r \<noteq> 200 \<Longrightarrow>
   AccountOrderStatus w i = (Return None,
      setErr (snd (Decode_errorResult w (Response.Body r) zeroErrorResult))
        (setErr (apiError (venueMessage w r) (Status r))
          (setErr e (i\<lparr>trace := trace i @
      [EvRLock,
       EvNewRequest ''GET'' (URL (reqAccountOrderStatus w i)),
       EvRUnlock,
       EvDo (reqAccountOrderStatus w i)]\<rparr>))))"
  by (simp add: AccountOrderStatus_def op_defs split: prod.splits)

lemma AccountOrderStatus_cases:
  obtains
    (norequest) "\<not> urlParses w (URL (reqAccountOrderStatus w i))"
  | (noresponse) e where "urlParses w (URL (reqAccountOrderStatus w i))" "c i (reqAccountOrderStatus w i) = (None, e)"
  | (ok) r e where "urlParses w (URL (reqAccountOrderStatus w i))" "c i (reqAccountOrderStatus w i) = (Some r, e)" "StatusCode r = 200"
  | (failed) r e where "urlParses w (URL (reqAccountOrderStatus w i))" "c i (reqAccountOrderStatus w i) = (Some r, e)" "StatusCode r \<noteq> 200"
proof (cases "urlParses w (URL (reqAccountOrderStatus w i))")
  case False
  then show ?thesis by (rule norequest)
next
  case True
  obtain res e where ans: "c i (reqAccountOrderStatus w i) = (res, e)"
    by (cases "c i (reqAccountOrderStatus w i)")
  show ?thesis
  proof (cases res)
    case None
    with True ans show ?thesis by (intro noresponse) simp_all
  next
    case (Some r)
    with True ans show ?thesis by (cases "StatusCode r = 200") (auto intro: ok failed)
  qed
qed

lemma AccountOrderStatus_sticky:
  "err i = Some x \<Longrightarrow> err (snd (AccountOrderStatus w i)) = Some x"
  by (cases rule: AccountOrderStatus_cases [of w i ])
     (simp_all add: AccountOrderStatus_norequest AccountOrderStatus_noresponse AccountOrderStatus_200 AccountOrderStatus_non200 err_setErr)

lemma AccountOrderStatus_trace:
  "trace (snd (AccountOrderStatus w i)) = trace i @ [EvRLock,
       EvNewRequest ''GET'' (URL (reqAccountOrderStatus w i)),
       EvRUnlock]
     @ (if urlParses w (URL (reqAccountOrderStatus w i)) then [EvDo (reqAccountOrderStatus w i)] else [])"
  by (cases rule: AccountOrderStatus_cases [of w i ])
     (simp_all add: AccountOrderStatus_norequest AccountOrderStatus_noresponse AccountOrderStatus_200 AccountOrderStatus_non200 trace_setErr)

lemma AccountOrderStatus_err_transport:
  "urlParses w (URL (reqAccountOrderStatus w i)) \<Longrightarrow> snd (c i (reqAccountOrderStatus w i)) = Some x \<Longrightarrow>
   err (snd (AccountOrderStatus w i)) = (case err i of Some y \<Rightarrow> Some y | None \<Rightarrow> Some x)"
  by (cases rule: AccountOrderStatus_cases [of w i ])
     (simp_all add: AccountOrderStatus_noresponse AccountOrderStatus_200 AccountOrderStatus_non200 err_setErr split: option.splits)

lemma AccountOrderStatus_err_non200:
  "urlParses w (URL (reqAccountOrderStatus w i)) \<Longrightarrow> c i (reqAccountOrderStatus w i) = (Some r, e) \<Longrightarrow> StatusCode r \<noteq> 200 \<Longrightarrow>
   err (snd (AccountOrderStatus w i)) =
     (case err i of
        Some y \<Rightarrow> Some y
      | None \<Rightarrow> (case e of
          Some z \<Rightarrow> Some z
        | None \<Rightarrow> Some (ApiError (venueMessage w r) (Status r))))"
  by (simp add: AccountOrderStatus_non200 err_setErr apiError_def split: option.splits)

lemma AccountOrderStatus_requests:
  "requests (trace (snd (AccountOrderStatus w i))) = requests (trace i)
     @ (if urlParses w (URL (reqAccountOrderStatus w i)) then [reqAccountOrderStatus w i] else [])"
  by (simp add: AccountOrderStatus_trace requests_append)

lemma AccountOrderStatus_built:
  "built (trace (snd (AccountOrderStatus w i))) = built (trace i) @ [(''GET'', URL (reqAccountOrderStatus w i))]"
  by (simp add: AccountOrderStatus_trace built_append)

lemma StockOrderStatus_norequest:
  "\<not> urlParses w (URL (reqStockOrderStatus w i)) \<Longrightarrow>
   StockOrderStatus w i = (Panic NilDereference, i\<lparr>trace := trace i @
      [EvRLock,
       EvNewRequest ''GET'' (URL (reqStockOrderStatus w i)),
       EvRUnlock]\<rparr>)"
  by (simp add: StockOrderStatus_def op_defs)

lemma StockOrderStatus_noresponse:
  "urlParses w (URL (reqStockOrderStatus w i)) \<Longrightarrow> c i (reqStockOrderStatus w i) = (None, e) \<Longrightarrow>
   StockOrderStatus w i = (Panic NilDereference, setErr e (i\<lparr>trace := trace i @
      [EvRLock,
       EvNewRequest ''GET'' (URL (reqStockOrderStatus w i)),
       EvRUnlock,
       EvDo (reqStockOrderStatus w i)]\<rparr>))"
  by (simp add: StockOrderStatus_def op_defs)

lemma StockOrderStatus_200:
  "urlParses w (URL (reqStockOrderStatus w i)) \<Longrightarrow> c i (reqStockOrderStatus w i) = (Some r, e) \<Longrightarrow>
   StatusCode r = 200 \<Longrightarrow>
   StockOrderStatus w i = (Return (Orders (fst (Decode_allOrdersStatusResult w (Response.Body r) zeroAllOrdersStatusResult))),
      setErr e (i\<lparr>trace := trace i @
      [EvRLock,
       EvNewRequest ''GET'' (URL (reqStockOrderStatus w i)),
       EvRUnlock,
       EvDo (reqStockOrderStatus w i)]\<rparr>))"
  by (simp add: StockOrderStatus_def op_defs split: prod.splits)

lemma StockOrderStatus_non200:
  "urlParses w (URL (reqStockOrderStatus w i)) \<Longrightarrow> c i (reqStockOrderStatus w i) = (Some r, e) \<Longrightarrow>
   StatusCode r \<noteq> 200 \<Longrightarrow>
   StockOrderStatus w i = (Return None,
      setErr (snd (Decode_errorResult w (Response.Body r) zeroErrorResult))
        (setErr (apiError (venueMessage w r) (Status r))
          (setErr e (i\<lparr>trace := trace i @
      [EvRLock,
       EvNewRequest ''GET'' (URL (reqStockOrderStatus w i)),
       EvRUnlock,
       EvDo (reqStockOrderStatus w i)]\<rparr>))))"
  by (simp add: StockOrderStatus_def op_defs split: prod.splits)

lemma StockOrderStatus_cases:
  obtains
    (norequest) "\<not> urlParses w (URL (reqStockOrderStatus w i))"
  | (noresponse) e where "urlParses w (URL (reqStockOrderStatus w i))" "c i (reqStockOrderStatus w i) = (None, e)"
  | (ok) r e where "urlParses w (URL (reqStockOrderStatus w i))" "c i (reqStockOrderStatus w i) = (Some r, e)" "StatusCode r = 200"
  | (failed) r e where "urlParses w (URL (reqStockOrderStatus w i))" "c i (reqStockOrderStatus w i) = (Some r, e)" "StatusCode r \<noteq> 200"
proof (cases "urlParses w (URL (reqStockOrderStatus w i))")
  case False
  then show ?thesis by (rule norequest)
next
  case True
  obtain res e where ans: "c i (reqStockOrderStatus w i) = (res, e)"
    by (cases "c i (reqStockOrderStatus w i)")
  show ?thesis
  proof (cases res)
    case None
    with True ans show ?thesis by (intro noresponse) simp_all
  next
    case (Some r)
    with True ans show ?thesis by (cases "StatusCode r = 200") (auto intro: ok failed)
  qed
qed

lemma StockOrderStatus_sticky:
  "err i = Some x \<Longrightarrow> err (snd (StockOrderStatus w i)) = Some x"
  by (cases rule: StockOrderStatus_cases [of w i ])
     (simp_all add: StockOrderStatus_norequest StockOrderStatus_noresponse StockOrderStatus_200 StockOrderStatus_non200 err_setErr)

lemma StockOrderStatus_trace:
  "trace (snd (StockOrderStatus w i)) = trace i @ [EvRLock,
       EvNewRequest ''GET'' (URL (reqStockOrderStatus w i)),
       EvRUnlock]
     @ (if urlParses w (URL (reqStockOrderStatus w i)) then [EvDo (reqStockOrderStatus w i)] else [])"
  by (cases rule: StockOrderStatus_cases [of w i ])
     (simp_all add: StockOrderStatus_norequest StockOrderStatus_noresponse StockOrderStatus_200 StockOrderStatus_non200 trace_setErr)

lemma StockOrderStatus_err_transport:
  "urlParses w (URL (reqStockOrderStatus w i)) \<Longrightarrow> snd (c i (reqStockOrderStatus w i)) = Some x \<Longrightarrow>
   err (snd (StockOrderStatus w i)) = (case err i of Some y \<Rightarrow> Some y | None \<Rightarrow> Some x)"
  by (cases rule: StockOrderStatus_cases [of w i ])
     (simp_all add: StockOrderStatus_noresponse StockOrderStatus_200 StockOrderStatus_non200 err_setErr split: option.splits)

lemma StockOrderStatus_err_non200:
  "urlParses w (URL (reqStockOrderStatus w i)) \<Longrightarrow> c i (reqStockOrderStatus w i) = (Some r, e) \<Longrightarrow> StatusCode r \<noteq> 200 \<Longrightarrow>
   err (snd (StockOrderStatus w i)) =
     (case err i of
        Some y \<Rightarrow> Some y
      | None \<Rightarrow> (case e of
          Some z \<Rightarrow> Some z
        | None \<Rightarrow> Some (ApiError (venueMessage w r) (Status r))))"
  by (simp add: StockOrderStatus_non200 err_setErr apiError_def split: option.splits)

lemma StockOrderStatus_requests:
  "requests (trace (snd (StockOrderStatus w i))) = requests (trace i)
     @ (if urlParses w (URL (reqStockOrderStatus w i)) then [reqStockOrderStatus w i] else [])"
  by (simp add: StockOrderStatus_trace requests_append)

lemma StockOrderStatus_built:
  "built (trace (snd (StockOrderStatus w i))) = built (trace i) @ [(''GET'', URL (reqStockOrderStatus w i))]"
  by (simp add: StockOrderStatus_trace built_append)

subsection \<open>Evaluating the concrete environment\<close>

lemmas example_defs = exampleInstance_def exampleEnv_def unauthorized_def garbled_def
  Decode_errorResult_def exampleErrorResult_def zeroErrorResult_def Itoa_def digitsOf.simps ishex_def


subsection \<open>Decimal rendering\<close>

lemma natOfDigits_snoc: "natOfDigits (xs @ [ch]) = 10 * natOfDigits xs + (of_char ch - 48)"
  by (simp add: natOfDigits_def)

lemma digit_value: "k < 10 \<Longrightarrow> (of_char (''0123456789'' ! k) :: nat) = 48 + k"
  by (auto simp: numeral_eq_Suc less_Suc_eq)

lemma digit_not_minus: "k < 10 \<Longrightarrow> ''0123456789'' ! k \<noteq> CHR ''-''"
  by (auto simp: numeral_eq_Suc less_Suc_eq)

lemma natOfDigits_digitsOf: "natOfDigits (digitsOf k) = k"
proof (induction k rule: digitsOf.induct)
  case (1 k)
  show ?case
  proof (cases "k < 10")
    case True
    then have "digitsOf k = [''0123456789'' ! k]" by (subst digitsOf.simps) simp
    with True show ?thesis using digit_value [of k] by (simp add: natOfDigits_def)
  next
    case False
    then have unfold: "digitsOf k = digitsOf (k div 10) @ [''0123456789'' ! (k mod 10)]"
      by (subst digitsOf.simps) simp
    have "natOfDigits (digitsOf (k div 10)) = k div 10" using False by (rule "1.IH")
    then show ?thesis using digit_value [of "k mod 10"]
      by (simp add: unfold natOfDigits_snoc)
  qed
qed

lemma digitsOf_head: "\<exists>ch ds. digitsOf k = ch # ds \<and> ch \<noteq> CHR ''-''"
proof (induction k rule: digitsOf.induct)
  case (1 k)
  show ?case
  proof (cases "k < 10")
    case True
    then have "digitsOf k = [''0123456789'' ! k]" by (subst digitsOf.simps) simp
    with True show ?thesis using digit_not_minus [of k] by simp
  next
    case False
    then have unfold: "digitsOf k = digitsOf (k div 10) @ [''0123456789'' ! (k mod 10)]"
      by (subst digitsOf.simps) simp
    from False obtain ch ds where "digitsOf (k div 10) = ch # ds" "ch \<noteq> CHR ''-''"
      using "1.IH" by blast
    then show ?thesis by (simp add: unfold)
  qed
qed

lemma decimalValue_Itoa: "decimalValue (Itoa k) = k"
proof (cases "k < 0")
  case True
  then show ?thesis by (simp add: decimalValue_def Itoa_def natOfDigits_digitsOf)
next
  case False
  obtain ch ds where "digitsOf (nat k) = ch # ds" "ch \<noteq> CHR ''-''"
    using digitsOf_head by blast
  moreover have "natOfDigits (digitsOf (nat k)) = nat k" by (rule natOfDigits_digitsOf)
  ultimately show ?thesis using False by (simp add: decimalValue_def Itoa_def)
qed

subsection \<open>Keys and the tag of OriginalQuantity\<close>


lemma find_holds: "find P xs = Some x \<Longrightarrow> P x"
  by (auto simp: find_Some_iff)

lemma findField_fold: "findField tags k = Some tag \<Longrightarrow> foldName tag = foldName k"
  by (auto simp: findField_def split: option.splits dest: find_holds)

lemma setOrderField_other:
  "tag \<noteq> ''orignialQty'' \<Longrightarrow>
   OriginalQuantity (fst (fst (setOrderField w tag j (v, s)))) = OriginalQuantity v"
  by (simp add: setOrderField_def split: prod.splits)

lemma object_keeps_OriginalQuantity:
  "list_all (\<lambda>kv. foldName (fst kv) \<noteq> foldName ''orignialQty'') kvs \<Longrightarrow>
   OriginalQuantity (fst (fst (object (setOrderField w) orderTags kvs (v, s)))) = OriginalQuantity v"
proof (induction kvs arbitrary: v s)
  case Nil
  show ?case by simp
next
  case (Cons kv kvs)
  obtain k j where kv: "kv = (k, j)" by (cases kv)
  from Cons.prems kv have key: "foldName k \<noteq> foldName ''orignialQty''"
    and rest: "list_all (\<lambda>kv. foldName (fst kv) \<noteq> foldName ''orignialQty'') kvs"
    by simp_all
  show ?case
  proof (cases "findField orderTags k")
    case None
    with kv show ?thesis by (simp add: Cons.IH [OF rest])
  next
    case (Some tag)
    then have "foldName tag = foldName k" by (rule findField_fold)
    with key have tag: "tag \<noteq> ''orignialQty''" by auto
    obtain v' s' e where step: "setOrderField w tag j (v, s) = ((v', s'), e)"
      by (metis surj_pair)
    from setOrderField_other [OF tag, of w j v s] step
    have kept: "OriginalQuantity v' = OriginalQuantity v" by simp
    show ?thesis
    proof (cases e)
      case None
      with kv Some step kept show ?thesis by (simp add: Cons.IH [OF rest])
    next
      case (Some x)
      with kv \<open>findField orderTags k = Some tag\<close> step kept show ?thesis by simp
    qed
  qed
qed

lemma valueOrder_keeps_OriginalQuantity:
  "lacksKey ''orignialQty'' j \<Longrightarrow>
   OriginalQuantity (fst (fst (valueOrder w j (v, s)))) = OriginalQuantity v"
  by (cases j) (simp_all add: valueOrder_def struct_def lacksKey_def object_keeps_OriginalQuantity)

lemma Decode_Order_keeps_OriginalQuantity:
  "lacksKey ''orignialQty'' j \<Longrightarrow>
   OriginalQuantity (fst (Decode_Order w (Inr j) v)) = OriginalQuantity v"
  using valueOrder_keeps_OriginalQuantity [of j w v None]
  by (auto simp: Decode_Order_def decodeWith_def split: prod.splits option.splits)

lemma array_keeps_OriginalQuantity:
  "list_all (lacksKey ''orignialQty'') js \<Longrightarrow> list_all (\<lambda>x. OriginalQuantity x = 0) xs \<Longrightarrow>
   list_all (\<lambda>x. OriginalQuantity x = 0) (fst (fst (array (valueOrder w) zeroOrder js (xs, s))))"
proof (induction js arbitrary: xs s)
  case Nil
  then show ?case by simp
next
  case (Cons j js)
  obtain x s' e where step: "valueOrder w j (zeroOrder, s) = ((x, s'), e)"
    by (metis surj_pair)
  from Cons.prems have "lacksKey ''orignialQty'' j" by simp
  from valueOrder_keeps_OriginalQuantity [OF this, of w zeroOrder s] step
  have zero: "OriginalQuantity x = 0" by (simp add: zeroOrder_def)
  with Cons.prems have all: "list_all (\<lambda>x. OriginalQuantity x = 0) (xs @ [x])" by simp
  show ?case
  proof (cases e)
    case None
    with step show ?thesis using Cons.IH [OF _ all, of s'] Cons.prems by simp
  next
    case (Some err)
    with step all show ?thesis by simp
  qed
qed

lemma setAllOrdersField_keeps_zero:
  assumes "allZeroOriginalQuantity (Orders v)"
    and "case j of JArr js \<Rightarrow> list_all (lacksKey ''orignialQty'') js | _ \<Rightarrow> True"
  shows "allZeroOriginalQuantity (Orders (fst (fst (setAllOrdersField w tag j (v, s)))))"
proof (cases "tag = ''orders''")
  case False
  with assms(1) show ?thesis by (simp add: setAllOrdersField_def split: prod.splits)
next
  case True
  show ?thesis
  proof (cases j)
    case (JArr js)
    with assms(2) have "list_all (lacksKey ''orignialQty'') js" by simp
    then have "list_all (\<lambda>x. OriginalQuantity x = 0)
        (fst (fst (array (valueOrder w) zeroOrder js ([], s))))"
      by (rule array_keeps_OriginalQuantity) simp
    with True JArr show ?thesis
      by (auto simp: setAllOrdersField_def slice_def allZeroOriginalQuantity_def split: prod.splits)
  qed (use True assms(1) in \<open>simp_all add: setAllOrdersField_def slice_def allZeroOriginalQuantity_def\<close>)
qed

lemma object_allOrders_keeps_zero:
  "list_all (\<lambda>kv. case snd kv of JArr js \<Rightarrow> list_all (lacksKey ''orignialQty'') js | _ \<Rightarrow> True) kvs \<Longrightarrow>
   allZeroOriginalQuantity (Orders v) \<Longrightarrow>
   allZeroOriginalQuantity
     (Orders (fst (fst (object (setAllOrdersField w) allOrdersTags kvs (v, s)))))"
proof (induction kvs arbitrary: v s)
  case Nil
  then show ?case by simp
next
  case (Cons kv kvs)
  obtain k j where kv: "kv = (k, j)" by (cases kv)
  from Cons.prems(1) kv
  have here: "case j of JArr js \<Rightarrow> list_all (lacksKey ''orignialQty'') js | _ \<Rightarrow> True"
    and rest: "list_all (\<lambda>kv. case snd kv of JArr js \<Rightarrow> list_all (lacksKey ''orignialQty'') js
                 | _ \<Rightarrow> True) kvs"
    by simp_all
  show ?case
  proof (cases "findField allOrdersTags k")
    case None
    with kv show ?thesis by (simp add: Cons.IH [OF rest Cons.prems(2)])
  next
    case (Some tag)
    obtain v' s' e where step: "setAllOrdersField w tag j (v, s) = ((v', s'), e)"
      by (metis surj_pair)
    from setAllOrdersField_keeps_zero [OF Cons.prems(2) here, of w tag s] step
    have kept: "allZeroOriginalQuantity (Orders v')" by simp
    show ?thesis
    proof (cases e)
      case None
      with kv Some step show ?thesis by (simp add: Cons.IH [OF rest kept])
    next
      case (Some x)
      with kv \<open>findField allOrdersTags k = Some tag\<close> step kept show ?thesis by simp
    qed
  qed
qed

lemma Decode_allOrders_keeps_zero:
  "ordersLackKey ''orignialQty'' j \<Longrightarrow>
   allZeroOriginalQuantity
     (Orders (fst (Decode_allOrdersStatusResult w (Inr j) zeroAllOrdersStatusResult)))"
proof (cases j)
  case (JObj kvs)
  assume "ordersLackKey ''orignialQty'' j"
  with JObj have "list_all (\<lambda>kv. case snd kv of JArr js \<Rightarrow> list_all (lacksKey ''orignialQty'') js
      | _ \<Rightarrow> True) kvs"
    by (simp add: ordersLackKey_def)
  then have "allZeroOriginalQuantity (Orders (fst (fst
      (object (setAllOrdersField w) allOrdersTags kvs (zeroAllOrdersStatusResult, None)))))"
    by (rule object_allOrders_keeps_zero)
       (simp add: allZeroOriginalQuantity_def zeroAllOrdersStatusResult_def)
  with JObj show ?thesis
    by (auto simp: Decode_allOrdersStatusResult_def decodeWith_def valueAllOrders_def struct_def
          split: prod.splits option.splits)
qed (simp_all add: Decode_allOrdersStatusResult_def decodeWith_def valueAllOrders_def struct_def
       allZeroOriginalQuantity_def zeroAllOrdersStatusResult_def)

lemmas decode_defs = Decode_Order_def Decode_allOrdersStatusResult_def decodeWith_def valueOrder_def
  valueAllOrders_def valueFill_def struct_def slice_def findField_def orderTags_def allOrdersTags_def
  fillTags_def setOrderField_def setAllOrdersField_def setFillField_def storeInt_def storeBool_def
  storeString_def storeTime_def saveError_def kindOf_def zeroOrder_def zeroFill_def
  zeroAllOrdersStatusResult_def upperASCII_def char_of_eq_iff
section \<open>The sticky error accumulator\<close>

text \<open>
  Claim C1. The shared error accumulator is sticky, and the first error wins. For each
  of \<open>NewOrder\<close>, \<open>CancelOrder\<close>, \<open>OrderStatus\<close>, \<open>AccountOrderStatus\<close> and
  \<open>StockOrderStatus\<close>: an error held before the call is the error held after it,
  whatever happens in the call (a panic included). Within one call that starts with an
  empty accumulator, an error of the HTTP client is the first one met and is the one
  stored, whatever response, venue error or decode error follows it; and when the client
  reports no error and the status is not 200, the venue's error is stored and the decode
  error of the error body, which comes after it, is not.
\<close>

theorem err_sticky_first_wins:
  "(err i = Some x \<longrightarrow>
      err (snd (NewOrder w p q d t i)) = Some x \<and>
      err (snd (CancelOrder w n i)) = Some x \<and>
      err (snd (OrderStatus w n i)) = Some x \<and>
      err (snd (AccountOrderStatus w i)) = Some x \<and>
      err (snd (StockOrderStatus w i)) = Some x) \<and>
   (err j = None \<longrightarrow>
      (urlParses w (URL (reqNewOrder w j p q d t)) \<and> snd (c j (reqNewOrder w j p q d t)) = Some y
         \<longrightarrow> err (snd (NewOrder w p q d t j)) = Some y) \<and>
      (urlParses w (URL (reqCancelOrder w j n)) \<and> snd (c j (reqCancelOrder w j n)) = Some y
         \<longrightarrow> err (snd (CancelOrder w n j)) = Some y) \<and>
      (urlParses w (URL (reqOrderStatus w j n)) \<and> snd (c j (reqOrderStatus w j n)) = Some y
         \<longrightarrow> err (snd (OrderStatus w n j)) = Some y) \<and>
      (urlParses w (URL (reqAccountOrderStatus w j)) \<and> snd (c j (reqAccountOrderStatus w j)) = Some y
         \<longrightarrow> err (snd (AccountOrderStatus w j)) = Some y) \<and>
      (urlParses w (URL (reqStockOrderStatus w j)) \<and> snd (c j (reqStockOrderStatus w j)) = Some y
         \<longrightarrow> err (snd (StockOrderStatus w j)) = Some y)) \<and>
   (err k = None \<and> StatusCode r \<noteq> 200 \<longrightarrow>
      (urlParses w (URL (reqNewOrder w k p q d t)) \<and> c k (reqNewOrder w k p q d t) = (Some r, None)
         \<longrightarrow> err (snd (NewOrder w p q d t k)) = Some (ApiError (venueMessage w r) (Status r))) \<and>
      (urlParses w (URL (reqCancelOrder w k n)) \<and> c k (reqCancelOrder w k n) = (Some r, None)
         \<longrightarrow> err (snd (CancelOrder w n k)) = Some (ApiError (venueMessage w r) (Status r))) \<and>
      (urlParses w (URL (reqOrderStatus w k n)) \<and> c k (reqOrderStatus w k n) = (Some r, None)
         \<longrightarrow> err (snd (OrderStatus w n k)) = Some (ApiError (venueMessage w r) (Status r))) \<and>
      (urlParses w (URL (reqAccountOrderStatus w k)) \<and> c k (reqAccountOrderStatus w k) = (Some r, None)
         \<longrightarrow> err (snd (AccountOrderStatus w k)) = Some (ApiError (venueMessage w r) (Status r))) \<and>
      (urlParses w (URL (reqStockOrderStatus w k)) \<and> c k (reqStockOrderStatus w k) = (Some r, None)
         \<longrightarrow> err (snd (StockOrderStatus w k)) = Some (ApiError (venueMessage w r) (Status r))))"
proof (intro conjI impI)
  assume held: "err i = Some x"
  show "err (snd (NewOrder w p q d t i)) = Some x" using held by (rule NewOrder_sticky)
  show "err (snd (CancelOrder w n i)) = Some x" using held by (rule CancelOrder_sticky)
  show "err (snd (OrderStatus w n i)) = Some x" using held by (rule OrderStatus_sticky)
  show "err (snd (AccountOrderStatus w i)) = Some x" using held by (rule AccountOrderStatus_sticky)
  show "err (snd (StockOrderStatus w i)) = Some x" using held by (rule StockOrderStatus_sticky)
next
  assume "err j = None"
    and "urlParses w (URL (reqNewOrder w j p q d t)) \<and> snd (c j (reqNewOrder w j p q d t)) = Some y"
  then show "err (snd (NewOrder w p q d t j)) = Some y" by (simp add: NewOrder_err_transport)
next
  assume "err j = None"
    and "urlParses w (URL (reqCancelOrder w j n)) \<and> snd (c j (reqCancelOrder w j n)) = Some y"
  then show "err (snd (CancelOrder w n j)) = Some y" by (simp add: CancelOrder_err_transport)
next
  assume "err j = None"
    and "urlParses w (URL (reqOrderStatus w j n)) \<and> snd (c j (reqOrderStatus w j n)) = Some y"
  then show "err (snd (OrderStatus w n j)) = Some y" by (simp add: OrderStatus_err_transport)
next
  assume "err j = None"
    and "urlParses w (URL (reqAccountOrderStatus w j)) \<and> snd (c j (reqAccountOrderStatus w j)) = Some y"
  then show "err (snd (AccountOrderStatus w j)) = Some y" by (simp add: AccountOrderStatus_err_transport)
next
  assume "err j = None"
    and "urlParses w (URL (reqStockOrderStatus w j)) \<and> snd (c j (reqStockOrderStatus w j)) = Some y"
  then show "err (snd (StockOrderStatus w j)) = Some y" by (simp add: StockOrderStatus_err_transport)
next
  assume "err k = None \<and> StatusCode r \<noteq> 200"
    and "urlParses w (URL (reqNewOrder w k p q d t)) \<and> c k (reqNewOrder w k p q d t) = (Some r, None)"
  then show "err (snd (NewOrder w p q d t k)) = Some (ApiError (venueMessage w r) (Status r))"
    by (simp add: NewOrder_err_non200)
next
  assume "err k = None \<and> StatusCode r \<noteq> 200"
    and "urlParses w (URL (reqCancelOrder w k n)) \<and> c k (reqCancelOrder w k n) = (Some r, None)"
  then show "err (snd (CancelOrder w n k)) = Some (ApiError (venueMessage w r) (Status r))"
    by (simp add: CancelOrder_err_non200)
next
  assume "err k = None \<and> StatusCode r \<noteq> 200"
    and "urlParses w (URL (reqOrderStatus w k n)) \<and> c k (reqOrderStatus w k n) = (Some r, None)"
  then show "err (snd (OrderStatus w n k)) = Some (ApiError (venueMessage w r) (Status r))"
    by (simp add: OrderStatus_err_non200)
next
  assume "err k = None \<and> StatusCode r \<noteq> 200"
    and "urlParses w (URL (reqAccountOrderStatus w k)) \<and> c k (reqAccountOrderStatus w k) = (Some r, None)"
  then show "err (snd (AccountOrderStatus w k)) = Some (ApiError (venueMessage w r) (Status r))"
    by (simp add: AccountOrderStatus_err_non200)
next
  assume "err k = None \<and> StatusCode r \<noteq> 200"
    and "urlParses w (URL (reqStockOrderStatus w k)) \<and> c k (reqStockOrderStatus w k) = (Some r, None)"
  then show "err (snd (StockOrderStatus w k)) = Some (ApiError (venueMessage w r) (Status r))"
    by (simp add: StockOrderStatus_err_non200)
qed

theorem err_sticky_first_wins_witness:
  "err (exampleInstance (Some unauthorized, None) (Some (TransportError ''earlier'')))
     = Some (TransportError ''earlier'') \<and>
   err (snd (NewOrder exampleEnv 100 10 Buy Limit
     (exampleInstance (Some unauthorized, None) (Some (TransportError ''earlier'')))))
     = Some (TransportError ''earlier'') \<and>
   err (snd (AccountOrderStatus exampleEnv
     (exampleInstance (Some unauthorized, None) (Some (TransportError ''earlier'')))))
     = Some (TransportError ''earlier'') \<and>
   err (snd (CancelOrder exampleEnv 7
     (exampleInstance (Some unauthorized, Some (TransportError ''redirect'')) None)))
     = Some (TransportError ''redirect'') \<and>
   err (snd (StockOrderStatus exampleEnv (exampleInstance (Some unauthorized, None) None)))
     = Some (ApiError ''Not authorized'' ''401 Unauthorized'')"
  using err_sticky_first_wins [where w = exampleEnv and p = 100 and q = 10 and d = Buy and t = Limit
      and n = 7 and r = unauthorized
      and i = "exampleInstance (Some unauthorized, None) (Some (TransportError ''earlier''))"
      and x = "TransportError ''earlier''"
      and j = "exampleInstance (Some unauthorized, Some (TransportError ''redirect'')) None"
      and y = "TransportError ''redirect''"
      and k = "exampleInstance (Some unauthorized, None) None"]
  by (simp add: example_defs)

section \<open>Responses with a status other than 200\<close>

text \<open>
  Claim C2. For each of the five operations, when the client returns a response whose
  status code is not 200, the accumulator afterwards holds the venue's error, built from
  the message decoded from the error body and the response status, unless an earlier
  error occupies it: the error held before the call, or else the client's own error.
\<close>

theorem non200_records_venue_error:
  "StatusCode r \<noteq> 200 \<longrightarrow>
     (urlParses w (URL (reqNewOrder w i p q d t)) \<and> c i (reqNewOrder w i p q d t) = (Some r, e) \<longrightarrow>
        err (snd (NewOrder w p q d t i)) =
          (case err i of Some y \<Rightarrow> Some y | None \<Rightarrow>
            (case e of Some z \<Rightarrow> Some z | None \<Rightarrow> Some (ApiError (venueMessage w r) (Status r))))) \<and>
     (urlParses w (URL (reqCancelOrder w i n)) \<and> c i (reqCancelOrder w i n) = (Some r, e) \<longrightarrow>
        err (snd (CancelOrder w n i)) =
          (case err i of Some y \<Rightarrow> Some y | None \<Rightarrow>
            (case e of Some z \<Rightarrow> Some z | None \<Rightarrow> Some (ApiError (venueMessage w r) (Status r))))) \<and>
     (urlParses w (URL (reqOrderStatus w i n)) \<and> c i (reqOrderStatus w i n) = (Some r, e) \<longrightarrow>
        err (snd (OrderStatus w n i)) =
          (case err i of Some y \<Rightarrow> Some y | None \<Rightarrow>
            (case e of Some z \<Rightarrow> Some z | None \<Rightarrow> Some (ApiError (venueMessage w r) (Status r))))) \<and>
     (urlParses w (URL (reqAccountOrderStatus w i)) \<and> c i (reqAccountOrderStatus w i) = (Some r, e) \<longrightarrow>
        err (snd (AccountOrderStatus w i)) =
          (case err i of Some y \<Rightarrow> Some y | None \<Rightarrow>
            (case e of Some z \<Rightarrow> Some z | None \<Rightarrow> Some (ApiError (venueMessage w r) (Status r))))) \<and>
     (urlParses w (URL (reqStockOrderStatus w i)) \<and> c i (reqStockOrderStatus w i) = (Some r, e) \<longrightarrow>
        err (snd (StockOrderStatus w i)) =
          (case err i of Some y \<Rightarrow> Some y | None \<Rightarrow>
            (case e of Some z \<Rightarrow> Some z | None \<Rightarrow> Some (ApiError (venueMessage w r) (Status r)))))"
  by (intro impI conjI; (elim conjE)?)
     (erule (2) NewOrder_err_non200 CancelOrder_err_non200 OrderStatus_err_non200
        AccountOrderStatus_err_non200 StockOrderStatus_err_non200)+

theorem non200_records_venue_error_witness:
  "StatusCode unauthorized \<noteq> 200 \<and>
   err (snd (NewOrder exampleEnv 100 10 Buy Limit (exampleInstance (Some unauthorized, None) None)))
     = Some (ApiError ''Not authorized'' ''401 Unauthorized'') \<and>
   err (snd (CancelOrder exampleEnv 7 (exampleInstance (Some unauthorized, None) None)))
     = Some (ApiError ''Not authorized'' ''401 Unauthorized'') \<and>
   err (snd (OrderStatus exampleEnv 7 (exampleInstance (Some unauthorized, None) None)))
     = Some (ApiError ''Not authorized'' ''401 Unauthorized'') \<and>
   err (snd (AccountOrderStatus exampleEnv (exampleInstance (Some unauthorized, None) None)))
     = Some (ApiError ''Not authorized'' ''401 Unauthorized'') \<and>
   err (snd (StockOrderStatus exampleEnv (exampleInstance (Some unauthorized, None) None)))
     = Some (ApiError ''Not authorized'' ''401 Unauthorized'')"
  using non200_records_venue_error [where w = exampleEnv and r = unauthorized and e = None
      and i = "exampleInstance (Some unauthorized, None) None"
      and p = 100 and q = 10 and d = Buy and t = Limit and n = 7]
  by (simp add: example_defs)

text \<open>
  Claim C4. On a response whose status code is not 200, \<open>NewOrder\<close>, \<open>CancelOrder\<close> and
  \<open>OrderStatus\<close> return the zero \<open>Order\<close>, whatever the error body holds, and
  \<open>AccountOrderStatus\<close> and \<open>StockOrderStatus\<close> return a nil slice.
\<close>

theorem non200_returns_zero_value:
  "StatusCode r \<noteq> 200 \<longrightarrow>
     (urlParses w (URL (reqNewOrder w i p q d t)) \<and> c i (reqNewOrder w i p q d t) = (Some r, e) \<longrightarrow>
        fst (NewOrder w p q d t i) = Return zeroOrder) \<and>
     (urlParses w (URL (reqCancelOrder w i n)) \<and> c i (reqCancelOrder w i n) = (Some r, e) \<longrightarrow>
        fst (CancelOrder w n i) = Return zeroOrder) \<and>
     (urlParses w (URL (reqOrderStatus w i n)) \<and> c i (reqOrderStatus w i n) = (Some r, e) \<longrightarrow>
        fst (OrderStatus w n i) = Return zeroOrder) \<and>
     (urlParses w (URL (reqAccountOrderStatus w i)) \<and> c i (reqAccountOrderStatus w i) = (Some r, e) \<longrightarrow>
        fst (AccountOrderStatus w i) = Return None) \<and>
     (urlParses w (URL (reqStockOrderStatus w i)) \<and> c i (reqStockOrderStatus w i) = (Some r, e) \<longrightarrow>
        fst (StockOrderStatus w i) = Return None)"
  by (simp add: NewOrder_non200 CancelOrder_non200 OrderStatus_non200
        AccountOrderStatus_non200 StockOrderStatus_non200)

theorem non200_returns_zero_value_witness:
  "StatusCode unauthorized \<noteq> 200 \<and>
   fst (NewOrder exampleEnv 100 10 Buy Limit (exampleInstance (Some unauthorized, None) None))
     = Return zeroOrder \<and>
   fst (CancelOrder exampleEnv 7 (exampleInstance (Some unauthorized, None) None)) = Return zeroOrder \<and>
   fst (OrderStatus exampleEnv 7 (exampleInstance (Some unauthorized, None) None)) = Return zeroOrder \<and>
   fst (AccountOrderStatus exampleEnv (exampleInstance (Some unauthorized, None) None)) = Return None \<and>
   fst (StockOrderStatus exampleEnv (exampleInstance (Some unauthorized, None) None)) = Return None"
  using non200_returns_zero_value [where w = exampleEnv and r = unauthorized and e = None
      and i = "exampleInstance (Some unauthorized, None) None"
      and p = 100 and q = 10 and d = Buy and t = Limit and n = 7]
  by (simp add: example_defs)

section \<open>A round trip that fails\<close>

text \<open>
  Claim C6. When the client's \<open>Do\<close> returns an error and no response, each of the five
  operations panics on the nil response instead of returning a value.
\<close>

theorem nil_response_panics:
  "(urlParses w (URL (reqNewOrder w i p q d t)) \<and> c i (reqNewOrder w i p q d t) = (None, Some x) \<longrightarrow>
      fst (NewOrder w p q d t i) = Panic NilDereference) \<and>
   (urlParses w (URL (reqCancelOrder w i n)) \<and> c i (reqCancelOrder w i n) = (None, Some x) \<longrightarrow>
      fst (CancelOrder w n i) = Panic NilDereference) \<and>
   (urlParses w (URL (reqOrderStatus w i n)) \<and> c i (reqOrderStatus w i n) = (None, Some x) \<longrightarrow>
      fst (OrderStatus w n i) = Panic NilDereference) \<and>
   (urlParses w (URL (reqAccountOrderStatus w i)) \<and> c i (reqAccountOrderStatus w i) = (None, Some x) \<longrightarrow>
      fst (AccountOrderStatus w i) = Panic NilDereference) \<and>
   (urlParses w (URL (reqStockOrderStatus w i)) \<and> c i (reqStockOrderStatus w i) = (None, Some x) \<longrightarrow>
      fst (StockOrderStatus w i) = Panic NilDereference)"
  by (simp add: NewOrder_noresponse CancelOrder_noresponse OrderStatus_noresponse
        AccountOrderStatus_noresponse StockOrderStatus_noresponse)

theorem nil_response_panics_witness:
  "fst (NewOrder exampleEnv 100 10 Buy Limit
     (exampleInstance (None, Some (TransportError ''connection refused'')) None)) = Panic NilDereference \<and>
   fst (CancelOrder exampleEnv 7
     (exampleInstance (None, Some (TransportError ''connection refused'')) None)) = Panic NilDereference \<and>
   fst (OrderStatus exampleEnv 7
     (exampleInstance (None, Some (TransportError ''connection refused'')) None)) = Panic NilDereference \<and>
   fst (AccountOrderStatus exampleEnv
     (exampleInstance (None, Some (TransportError ''connection refused'')) None)) = Panic NilDereference \<and>
   fst (StockOrderStatus exampleEnv
     (exampleInstance (None, Some (TransportError ''connection refused'')) None)) = Panic NilDereference"
  using nil_response_panics [where w = exampleEnv and x = "TransportError ''connection refused''"
      and i = "exampleInstance (None, Some (TransportError ''connection refused'')) None"
      and p = 100 and q = 10 and d = Buy and t = Limit and n = 7]
  by (simp add: example_defs)

section \<open>Requests and the read lock\<close>

text \<open>
  Claim C5. Method and URL of the request of each operation. Every call builds one
  request: for \<open>NewOrder\<close> a POST to baseURL + "venues/" + venue + "/stocks/" + symbol +
  "/orders"; for \<open>CancelOrder\<close> a DELETE and for \<open>OrderStatus\<close> a GET to
  baseURL + "venues/" + venue + "/stocks/" + symbol + "/orders/" + id, the id written in
  decimal (reading the text back as a decimal numeral gives the id); for
  \<open>AccountOrderStatus\<close> a GET to baseURL + "venues/" + venue + "/accounts/" + account +
  "/orders"; for \<open>StockOrderStatus\<close> a GET to baseURL + "venues/" + venue + "/accounts/" +
  account + "/stocks/" + symbol + "/orders". The request goes to the HTTP client with
  that method and URL whenever \<open>http.NewRequest\<close> accepts the URL.
\<close>

theorem request_method_and_url:
  "constructed (snd (NewOrder w p q d t i)) = constructed i @
     [(''POST'', baseURL w @ ''venues/'' @ venue i @ ''/stocks/'' @ symbol i @ ''/orders'')] \<and>
   sent (snd (NewOrder w p q d t i)) = sent i @
     (if urlParses w (baseURL w @ ''venues/'' @ venue i @ ''/stocks/'' @ symbol i @ ''/orders'')
      then [(''POST'', baseURL w @ ''venues/'' @ venue i @ ''/stocks/'' @ symbol i @ ''/orders'')]
      else []) \<and>
   constructed (snd (CancelOrder w n i)) = constructed i @
     [(''DELETE'', baseURL w @ ''venues/'' @ venue i @ ''/stocks/'' @ symbol i @ ''/orders/'' @ Itoa n)] \<and>
   sent (snd (CancelOrder w n i)) = sent i @
     (if urlParses w (baseURL w @ ''venues/'' @ venue i @ ''/stocks/'' @ symbol i @ ''/orders/'' @ Itoa n)
      then [(''DELETE'', baseURL w @ ''venues/'' @ venue i @ ''/stocks/'' @ symbol i @ ''/orders/'' @ Itoa n)]
      else []) \<and>
   constructed (snd (OrderStatus w n i)) = constructed i @
     [(''GET'', baseURL w @ ''venues/'' @ venue i @ ''/stocks/'' @ symbol i @ ''/orders/'' @ Itoa n)] \<and>
   sent (snd (OrderStatus w n i)) = sent i @
     (if urlParses w (baseURL w @ ''venues/'' @ venue i @ ''/stocks/'' @ symbol i @ ''/orders/'' @ Itoa n)
      then [(''GET'', baseURL w @ ''venues/'' @ venue i @ ''/stocks/'' @ symbol i @ ''/orders/'' @ Itoa n)]
      else []) \<and>
   constructed (snd (AccountOrderStatus w i)) = constructed i @
     [(''GET'', baseURL w @ ''venues/'' @ venue i @ ''/accounts/'' @ account i @ ''/orders'')] \<and>
   sent (snd (AccountOrderStatus w i)) = sent i @
     (if urlParses w (baseURL w @ ''venues/'' @ venue i @ ''/accounts/'' @ account i @ ''/orders'')
      then [(''GET'', baseURL w @ ''venues/'' @ venue i @ ''/accounts/'' @ account i @ ''/orders'')]
      else []) \<and>
   constructed (snd (StockOrderStatus w i)) = constructed i @
     [(''GET'', baseURL w @ ''venues/'' @ venue i @ ''/accounts/'' @ account i @ ''/stocks/'' @ symbol i @ ''/orders'')] \<and>
   sent (snd (StockOrderStatus w i)) = sent i @
     (if urlParses w (baseURL w @ ''venues/'' @ venue i @ ''/accounts/'' @ account i @ ''/stocks/'' @ symbol i @ ''/orders'')
      then [(''GET'', baseURL w @ ''venues/'' @ venue i @ ''/accounts/'' @ account i @ ''/stocks/'' @ symbol i @ ''/orders'')]
      else []) \<and>
   decimalValue (Itoa n) = n"
  by (simp add: constructed_def sent_def decimalValue_Itoa
        NewOrder_built CancelOrder_built OrderStatus_built AccountOrderStatus_built
        StockOrderStatus_built NewOrder_requests CancelOrder_requests OrderStatus_requests
        AccountOrderStatus_requests StockOrderStatus_requests)

theorem request_method_and_url_witness:
  "constructed (snd (NewOrder exampleEnv 100 10 Buy Limit (exampleInstance (Some unauthorized, None) None)))
     = [(''POST'', ''https://api.stockfighter.io/ob/api/venues/TESTEX/stocks/FOOBAR/orders'')] \<and>
   sent (snd (NewOrder exampleEnv 100 10 Buy Limit (exampleInstance (Some unauthorized, None) None)))
     = [(''POST'', ''https://api.stockfighter.io/ob/api/venues/TESTEX/stocks/FOOBAR/orders'')] \<and>
   sent (snd (CancelOrder exampleEnv 1649 (exampleInstance (Some unauthorized, None) None)))
     = [(''DELETE'', ''https://api.stockfighter.io/ob/api/venues/TESTEX/stocks/FOOBAR/orders/1649'')] \<and>
   sent (snd (OrderStatus exampleEnv 1649 (exampleInstance (Some unauthorized, None) None)))
     = [(''GET'', ''https://api.stockfighter.io/ob/api/venues/TESTEX/stocks/FOOBAR/orders/1649'')] \<and>
   sent (snd (AccountOrderStatus exampleEnv (exampleInstance (Some unauthorized, None) None)))
     = [(''GET'', ''https://api.stockfighter.io/ob/api/venues/TESTEX/accounts/EXB123456/orders'')] \<and>
   sent (snd (StockOrderStatus exampleEnv (exampleInstance (Some unauthorized, None) None)))
     = [(''GET'',
         ''https://api.stockfighter.io/ob/api/venues/TESTEX/accounts/EXB123456/stocks/FOOBAR/orders'')] \<and>
   decimalValue ''1649'' = 1649"
  using request_method_and_url [where w = exampleEnv
      and i = "exampleInstance (Some unauthorized, None) None"
      and p = 100 and q = 10 and d = Buy and t = Limit and n = 1649]
  by (simp add: example_defs sent_def constructed_def)

text \<open>
  Claim C10. Each operation takes the read lock once, at its start, and releases it
  before the request goes to the HTTP client. The calls of one operation are, in order:
  \<open>RLock\<close>; the building of the request from the configuration fields, with
  \<open>http.NewRequest\<close> called before \<open>RUnlock\<close> in all operations but \<open>NewOrder\<close>, which
  builds body and URL under the lock and calls it right after; \<open>RUnlock\<close>; and then the
  round trip, if the request could be built. The lock is therefore not held during the
  round trip.
\<close>

theorem read_lock_released_before_round_trip:
  "trace (snd (NewOrder w p q d t i)) = trace i
     @ [EvRLock, EvRUnlock, EvNewRequest ''POST'' (URL (reqNewOrder w i p q d t))]
     @ (if urlParses w (URL (reqNewOrder w i p q d t)) then [EvDo (reqNewOrder w i p q d t)] else []) \<and>
   trace (snd (CancelOrder w n i)) = trace i
     @ [EvRLock, EvNewRequest ''DELETE'' (URL (reqCancelOrder w i n)), EvRUnlock]
     @ (if urlParses w (URL (reqCancelOrder w i n)) then [EvDo (reqCancelOrder w i n)] else []) \<and>
   trace (snd (OrderStatus w n i)) = trace i
     @ [EvRLock, EvNewRequest ''GET'' (URL (reqOrderStatus w i n)), EvRUnlock]
     @ (if urlParses w (URL (reqOrderStatus w i n)) then [EvDo (reqOrderStatus w i n)] else []) \<and>
   trace (snd (AccountOrderStatus w i)) = trace i
     @ [EvRLock, EvNewRequest ''GET'' (URL (reqAccountOrderStatus w i)), EvRUnlock]
     @ (if urlParses w (URL (reqAccountOrderStatus w i)) then [EvDo (reqAccountOrderStatus w i)] else []) \<and>
   trace (snd (StockOrderStatus w i)) = trace i
     @ [EvRLock, EvNewRequest ''GET'' (URL (reqStockOrderStatus w i)), EvRUnlock]
     @ (if urlParses w (URL (reqStockOrderStatus w i)) then [EvDo (reqStockOrderStatus w i)] else [])"
  by (simp only: NewOrder_trace CancelOrder_trace OrderStatus_trace AccountOrderStatus_trace
        StockOrderStatus_trace simp_thms)

theorem read_lock_released_before_round_trip_witness:
  "trace (snd (AccountOrderStatus exampleEnv (exampleInstance (Some unauthorized, None) None)))
     = [EvRLock,
        EvNewRequest ''GET'' ''https://api.stockfighter.io/ob/api/venues/TESTEX/accounts/EXB123456/orders'',
        EvRUnlock,
        EvDo \<lparr>Method = ''GET'',
              URL = ''https://api.stockfighter.io/ob/api/venues/TESTEX/accounts/EXB123456/orders'',
              Header = [(''X-Starfighter-Authorization'', [''key''])], Request.Body = None\<rparr>]"
  using read_lock_released_before_round_trip [where w = exampleEnv
      and i = "exampleInstance (Some unauthorized, None) None"
      and p = 100 and q = 10 and d = Buy and t = Limit and n = 7]
  by (simp add: example_defs)

section \<open>One request per call\<close>

text \<open>
  Claim C9, as stated, fails: a call whose URL \<open>http.NewRequest\<close> rejects panics on the
  nil request and passes nothing to the HTTP client. Here the venue is a lone percent
  sign, which is not a valid escape in a URL path.
\<close>

theorem one_request_counterexample:
  "requests (trace ((exampleInstance (Some unauthorized, None) None)\<lparr>venue := ''%''\<rparr>)) = [] \<and>
   requests (trace (snd (CancelOrder exampleEnv 7
     ((exampleInstance (Some unauthorized, None) None)\<lparr>venue := ''%''\<rparr>)))) = [] \<and>
   fst (CancelOrder exampleEnv 7
     ((exampleInstance (Some unauthorized, None) None)\<lparr>venue := ''%''\<rparr>)) = Panic NilDereference"
  by (simp add: CancelOrder_def op_defs example_defs)

text \<open>
  Claim C9, amended. No operation retries: a call whose request \<open>http.NewRequest\<close> accepts
  passes exactly one request to the HTTP client, whatever the client answers. An error
  of the client and an error reported by the venue are recorded in the same field
  \<open>err\<close>, each when the field is empty at that point.
\<close>

theorem one_request_when_built:
  "(urlParses w (URL (reqNewOrder w i p q d t)) \<longrightarrow>
      requests (trace (snd (NewOrder w p q d t i))) = requests (trace i) @ [reqNewOrder w i p q d t]) \<and>
   (urlParses w (URL (reqCancelOrder w i n)) \<longrightarrow>
      requests (trace (snd (CancelOrder w n i))) = requests (trace i) @ [reqCancelOrder w i n]) \<and>
   (urlParses w (URL (reqOrderStatus w i n)) \<longrightarrow>
      requests (trace (snd (OrderStatus w n i))) = requests (trace i) @ [reqOrderStatus w i n]) \<and>
   (urlParses w (URL (reqAccountOrderStatus w i)) \<longrightarrow>
      requests (trace (snd (AccountOrderStatus w i))) = requests (trace i) @ [reqAccountOrderStatus w i]) \<and>
   (urlParses w (URL (reqStockOrderStatus w i)) \<longrightarrow>
      requests (trace (snd (StockOrderStatus w i))) = requests (trace i) @ [reqStockOrderStatus w i]) \<and>
   (err j = None \<longrightarrow>
      (urlParses w (URL (reqNewOrder w j p q d t)) \<and> snd (c j (reqNewOrder w j p q d t)) = Some y
         \<longrightarrow> err (snd (NewOrder w p q d t j)) = Some y) \<and>
      (urlParses w (URL (reqCancelOrder w j n)) \<and> snd (c j (reqCancelOrder w j n)) = Some y
         \<longrightarrow> err (snd (CancelOrder w n j)) = Some y) \<and>
      (urlParses w (URL (reqOrderStatus w j n)) \<and> snd (c j (reqOrderStatus w j n)) = Some y
         \<longrightarrow> err (snd (OrderStatus w n j)) = Some y) \<and>
      (urlParses w (URL (reqAccountOrderStatus w j)) \<and> snd (c j (reqAccountOrderStatus w j)) = Some y
         \<longrightarrow> err (snd (AccountOrderStatus w j)) = Some y) \<and>
      (urlParses w (URL (reqStockOrderStatus w j)) \<and> snd (c j (reqStockOrderStatus w j)) = Some y
         \<longrightarrow> err (snd (StockOrderStatus w j)) = Some y)) \<and>
   (err k = None \<and> StatusCode r \<noteq> 200 \<longrightarrow>
      (urlParses w (URL (reqNewOrder w k p q d t)) \<and> c k (reqNewOrder w k p q d t) = (Some r, None)
         \<longrightarrow> err (snd (NewOrder w p q d t k)) = Some (ApiError (venueMessage w r) (Status r))) \<and>
      (urlParses w (URL (reqCancelOrder w k n)) \<and> c k (reqCancelOrder w k n) = (Some r, None)
         \<longrightarrow> err (snd (CancelOrder w n k)) = Some (ApiError (venueMessage w r) (Status r))) \<and>
      (urlParses w (URL (reqOrderStatus w k n)) \<and> c k (reqOrderStatus w k n) = (Some r, None)
         \<longrightarrow> err (snd (OrderStatus w n k)) = Some (ApiError (venueMessage w r) (Status r))) \<and>
      (urlParses w (URL (reqAccountOrderStatus w k)) \<and> c k (reqAccountOrderStatus w k) = (Some r, None)
         \<longrightarrow> err (snd (AccountOrderStatus w k)) = Some (ApiError (venueMessage w r) (Status r))) \<and>
      (urlParses w (URL (reqStockOrderStatus w k)) \<and> c k (reqStockOrderStatus w k) = (Some r, None)
         \<longrightarrow> err (snd (StockOrderStatus w k)) = Some (ApiError (venueMessage w r) (Status r))))"
proof -
  have count:
    "urlParses w (URL (reqNewOrder w i p q d t)) \<longrightarrow>
       requests (trace (snd (NewOrder w p q d t i))) = requests (trace i) @ [reqNewOrder w i p q d t]"
    "urlParses w (URL (reqCancelOrder w i n)) \<longrightarrow>
       requests (trace (snd (CancelOrder w n i))) = requests (trace i) @ [reqCancelOrder w i n]"
    "urlParses w (URL (reqOrderStatus w i n)) \<longrightarrow>
       requests (trace (snd (OrderStatus w n i))) = requests (trace i) @ [reqOrderStatus w i n]"
    "urlParses w (URL (reqAccountOrderStatus w i)) \<longrightarrow>
       requests (trace (snd (AccountOrderStatus w i))) = requests (trace i) @ [reqAccountOrderStatus w i]"
    "urlParses w (URL (reqStockOrderStatus w i)) \<longrightarrow>
       requests (trace (snd (StockOrderStatus w i))) = requests (trace i) @ [reqStockOrderStatus w i]"
    by (simp_all add: NewOrder_requests CancelOrder_requests OrderStatus_requests
          AccountOrderStatus_requests StockOrderStatus_requests)
  have transport: "err j = None \<longrightarrow>
      (urlParses w (URL (reqNewOrder w j p q d t)) \<and> snd (c j (reqNewOrder w j p q d t)) = Some y
         \<longrightarrow> err (snd (NewOrder w p q d t j)) = Some y) \<and>
      (urlParses w (URL (reqCancelOrder w j n)) \<and> snd (c j (reqCancelOrder w j n)) = Some y
         \<longrightarrow> err (snd (CancelOrder w n j)) = Some y) \<and>
      (urlParses w (URL (reqOrderStatus w j n)) \<and> snd (c j (reqOrderStatus w j n)) = Some y
         \<longrightarrow> err (snd (OrderStatus w n j)) = Some y) \<and>
      (urlParses w (URL (reqAccountOrderStatus w j)) \<and> snd (c j (reqAccountOrderStatus w j)) = Some y
         \<longrightarrow> err (snd (AccountOrderStatus w j)) = Some y) \<and>
      (urlParses w (URL (reqStockOrderStatus w j)) \<and> snd (c j (reqStockOrderStatus w j)) = Some y
         \<longrightarrow> err (snd (StockOrderStatus w j)) = Some y)"
    by (simp add: NewOrder_err_transport CancelOrder_err_transport OrderStatus_err_transport
          AccountOrderStatus_err_transport StockOrderStatus_err_transport)
  have venue: "err k = None \<and> StatusCode r \<noteq> 200 \<longrightarrow>
      (urlParses w (URL (reqNewOrder w k p q d t)) \<and> c k (reqNewOrder w k p q d t) = (Some r, None)
         \<longrightarrow> err (snd (NewOrder w p q d t k)) = Some (ApiError (venueMessage w r) (Status r))) \<and>
      (urlParses w (URL (reqCancelOrder w k n)) \<and> c k (reqCancelOrder w k n) = (Some r, None)
         \<longrightarrow> err (snd (CancelOrder w n k)) = Some (ApiError (venueMessage w r) (Status r))) \<and>
      (urlParses w (URL (reqOrderStatus w k n)) \<and> c k (reqOrderStatus w k n) = (Some r, None)
         \<longrightarrow> err (snd (OrderStatus w n k)) = Some (ApiError (venueMessage w r) (Status r))) \<and>
      (urlParses w (URL (reqAccountOrderStatus w k)) \<and> c k (reqAccountOrderStatus w k) = (Some r, None)
         \<longrightarrow> err (snd (AccountOrderStatus w k)) = Some (ApiError (venueMessage w r) (Status r))) \<and>
      (urlParses w (URL (reqStockOrderStatus w k)) \<and> c k (reqStockOrderStatus w k) = (Some r, None)
         \<longrightarrow> err (snd (StockOrderStatus w k)) = Some (ApiError (venueMessage w r) (Status r)))"
    by (simp add: NewOrder_err_non200 CancelOrder_err_non200 OrderStatus_err_non200
          AccountOrderStatus_err_non200 StockOrderStatus_err_non200)
  from count transport venue show ?thesis by blast
qed

theorem one_request_when_built_witness:
  "length (requests (trace (snd (NewOrder exampleEnv 100 10 Buy Limit
     (exampleInstance (Some unauthorized, None) None))))) = 1 \<and>
   length (requests (trace (snd (StockOrderStatus exampleEnv
     (exampleInstance (None, Some (TransportError ''connection refused'')) None))))) = 1 \<and>
   err (snd (OrderStatus exampleEnv 7
     (exampleInstance (None, Some (TransportError ''connection refused'')) None)))
     = Some (TransportError ''connection refused'') \<and>
   err (snd (OrderStatus exampleEnv 7 (exampleInstance (Some unauthorized, None) None)))
     = Some (ApiError ''Not authorized'' ''401 Unauthorized'')"
  using one_request_when_built [where w = exampleEnv and p = 100 and q = 10 and d = Buy and t = Limit
      and n = 7 and r = unauthorized
      and i = "exampleInstance (Some unauthorized, None) None"
      and j = "exampleInstance (None, Some (TransportError ''connection refused'')) None"
      and y = "TransportError ''connection refused''"
      and k = "exampleInstance (Some unauthorized, None) None"]
    one_request_when_built [where w = exampleEnv
      and i = "exampleInstance (None, Some (TransportError ''connection refused'')) None"]
  by (simp add: example_defs)

section \<open>Decode errors of the list operations\<close>

text \<open>
  Claim C3 at a failing input: a 200 response whose body is not JSON. The decoder
  reports an error; \<open>AccountOrderStatus\<close> and \<open>StockOrderStatus\<close> return before the
  error is passed to \<open>setErr\<close>, so the accumulator stays empty, while \<open>OrderStatus\<close>
  records the same error on the same response.
\<close>

theorem list_status_decode_error_dropped:
  "StatusCode garbled = 200 \<and>
   snd (Decode_allOrdersStatusResult exampleEnv (Response.Body garbled) zeroAllOrdersStatusResult)
     = Some (SyntaxError ''invalid character'') \<and>
   err (snd (AccountOrderStatus exampleEnv (exampleInstance (Some garbled, None) None))) = None \<and>
   err (snd (StockOrderStatus exampleEnv (exampleInstance (Some garbled, None) None))) = None \<and>
   err (snd (OrderStatus exampleEnv 7 (exampleInstance (Some garbled, None) None)))
     = Some (SyntaxError ''invalid character'')"
  by (simp add: AccountOrderStatus_def StockOrderStatus_def OrderStatus_def op_defs example_defs
        Decode_allOrdersStatusResult_def Decode_Order_def decodeWith_def setErr_def)

section \<open>The order request body\<close>

text \<open>
  Claim C8. In the JSON body of an order request the order type constants appear as
  "limit", "market", "fill-or-kill" and "immediate-or-cancel" and the direction
  constants as "buy" and "sell"; the body \<open>NewOrder\<close> sends is this encoding of the request.
\<close>

theorem order_constants_serialize:
  "jsonMember ''orderType'' (fst (Marshal (orderRequest a v s p q d Limit))) = Some (JStr ''limit'') \<and>
   jsonMember ''orderType'' (fst (Marshal (orderRequest a v s p q d Market))) = Some (JStr ''market'') \<and>
   jsonMember ''orderType'' (fst (Marshal (orderRequest a v s p q d FillOrKill)))
     = Some (JStr ''fill-or-kill'') \<and>
   jsonMember ''orderType'' (fst (Marshal (orderRequest a v s p q d ImmediateOrCancel)))
     = Some (JStr ''immediate-or-cancel'') \<and>
   jsonMember ''direction'' (fst (Marshal (orderRequest a v s p q Buy t))) = Some (JStr ''buy'') \<and>
   jsonMember ''direction'' (fst (Marshal (orderRequest a v s p q Sell t))) = Some (JStr ''sell'') \<and>
   (urlParses w (URL (reqNewOrder w i p q d t)) \<longrightarrow>
      map Request.Body (requests (trace (snd (NewOrder w p q d t i))))
        = map Request.Body (requests (trace i))
            @ [Some (fst (Marshal (orderRequest (account i) (venue i) (symbol i) p q d t)))])"
  by (simp add: jsonMember_def Marshal_def Limit_def Market_def FillOrKill_def ImmediateOrCancel_def
        Buy_def Sell_def NewOrder_requests)

theorem order_constants_serialize_witness:
  "map Request.Body (requests (trace (snd (NewOrder exampleEnv 100 10 Sell FillOrKill
     (exampleInstance (Some unauthorized, None) None)))))
     = [Some (JObj [(''account'', JStr ''EXB123456''), (''venue'', JStr ''TESTEX''),
          (''symbol'', JStr ''FOOBAR''), (''price'', JInt 100), (''qty'', JInt 10),
          (''direction'', JStr ''sell''), (''orderType'', JStr ''fill-or-kill'')])]"
  using order_constants_serialize [where w = exampleEnv
      and i = "exampleInstance (Some unauthorized, None) None"
      and p = 100 and q = 10 and d = Sell and t = FillOrKill]
  by (simp add: example_defs Marshal_def Sell_def FillOrKill_def)

section \<open>The tag of OriginalQuantity\<close>

text \<open>
  Claim C7, as stated, fails in its last part: a key need not be literally
  "orignialQty" to populate the field. The decoder matches keys without regard to case,
  so a body keyed "ORIGNIALQTY" populates it.
\<close>

theorem orignialQty_key_counterexample:
  "''ORIGNIALQTY'' \<noteq> ''orignialQty'' \<and>
   OriginalQuantity (fst (Decode_Order exampleEnv (Inr (JObj [(''ORIGNIALQTY'', JInt 100)])) zeroOrder))
     = 100"
  by (simp add: decode_defs)

text \<open>
  Claim C7, amended. The tag of \<open>OriginalQuantity\<close> is the misspelled "orignialQty". The
  key "originalQty" does not match it, and a body none of whose keys matches it under
  the decoder's case-insensitive matching leaves \<open>OriginalQuantity\<close> at 0 in every decoded
  order, both in a single order and in each order of a list; a body keyed "orignialQty"
  populates it.
\<close>

theorem orignialQty_tag_decides:
  "foldName ''originalQty'' \<noteq> foldName ''orignialQty'' \<and>
   (lacksKey ''orignialQty'' j \<longrightarrow>
      OriginalQuantity (fst (Decode_Order w (Inr j) zeroOrder)) = 0) \<and>
   (ordersLackKey ''orignialQty'' b \<longrightarrow>
      allZeroOriginalQuantity
        (Orders (fst (Decode_allOrdersStatusResult w (Inr b) zeroAllOrdersStatusResult)))) \<and>
   (- (2 ^ 63) \<le> m \<and> m < 2 ^ 63 \<longrightarrow>
      OriginalQuantity (fst (Decode_Order w (Inr (JObj [(''orignialQty'', JInt m)])) zeroOrder)) = m)"
proof (intro conjI impI)
  show "foldName ''originalQty'' \<noteq> foldName ''orignialQty''"
    by (simp add: upperASCII_def)
next
  assume "lacksKey ''orignialQty'' j"
  then show "OriginalQuantity (fst (Decode_Order w (Inr j) zeroOrder)) = 0"
    by (simp add: Decode_Order_keeps_OriginalQuantity) (simp add: zeroOrder_def)
next
  assume "ordersLackKey ''orignialQty'' b"
  then show "allZeroOriginalQuantity
      (Orders (fst (Decode_allOrdersStatusResult w (Inr b) zeroAllOrdersStatusResult)))"
    by (rule Decode_allOrders_keeps_zero)
next
  assume "- (2 ^ 63) \<le> m \<and> m < 2 ^ 63"
  then show "OriginalQuantity (fst (Decode_Order w (Inr (JObj [(''orignialQty'', JInt m)])) zeroOrder)) = m"
    by (simp add: Decode_Order_def decodeWith_def valueOrder_def struct_def findField_def
          orderTags_def setOrderField_def storeInt_def zeroOrder_def)
qed

theorem orignialQty_tag_decides_witness:
  "lacksKey ''orignialQty'' (JObj [(''ok'', JBool True), (''originalQty'', JInt 100), (''qty'', JInt 20)]) \<and>
   OriginalQuantity (fst (Decode_Order exampleEnv
     (Inr (JObj [(''ok'', JBool True), (''originalQty'', JInt 100), (''qty'', JInt 20)])) zeroOrder)) = 0 \<and>
   Order.Quantity (fst (Decode_Order exampleEnv
     (Inr (JObj [(''ok'', JBool True), (''originalQty'', JInt 100), (''qty'', JInt 20)])) zeroOrder)) = 20 \<and>
   ordersLackKey ''orignialQty''
     (JObj [(''ok'', JBool True), (''orders'', JArr [JObj [(''originalQty'', JInt 100)]])]) \<and>
   allZeroOriginalQuantity (Orders (fst (Decode_allOrdersStatusResult exampleEnv
     (Inr (JObj [(''ok'', JBool True), (''orders'', JArr [JObj [(''originalQty'', JInt 100)]])]))
     zeroAllOrdersStatusResult))) \<and>
   OriginalQuantity (fst (Decode_Order exampleEnv (Inr (JObj [(''orignialQty'', JInt 100)])) zeroOrder))
     = 100"
  using orignialQty_tag_decides [where w = exampleEnv and m = 100
      and j = "JObj [(''ok'', JBool True), (''originalQty'', JInt 100), (''qty'', JInt 20)]"
      and b = "JObj [(''ok'', JBool True), (''orders'', JArr [JObj [(''originalQty'', JInt 100)]])]"]
  by (simp add: lacksKey_def ordersLackKey_def decode_defs)

end
